theory Spec2Isabelle
  imports Complex_Main "HOL-Library.Product_Lexorder"
begin

section \<open>Tensor elements\<close>

text \<open>
  The elements of every numpy array and torch tensor of \<^verbatim>\<open>forward_mpc_agent.py\<close> are
  IEEE-754 numbers. They are modelled with their special values kept and their rounding
  left out: a finite element is an exact real, and the operations follow IEEE-754 on
  infinities and NaN (\<open>0/0\<close>, \<open>\<infinity> - \<infinity>\<close> and \<open>0 * \<infinity>\<close> are NaN, every operation on NaN is NaN,
  every comparison with NaN is false). Overflow of finite values and the sign of zero are
  not modelled; every divisor of the program is a norm, a count or a fitted scale, so a
  zero divisor is \<open>+0\<close>.
\<close>

datatype fl = Fin real | PInf | NInf | NaN

fun is_finite :: "fl \<Rightarrow> bool" where
  "is_finite (Fin x) = True"
| "is_finite PInf = False"
| "is_finite NInf = False"
| "is_finite NaN = False"

fun is_nan :: "fl \<Rightarrow> bool" where
  "is_nan NaN = True"
| "is_nan (Fin x) = False"
| "is_nan PInf = False"
| "is_nan NInf = False"

fun is_inf :: "fl \<Rightarrow> bool" where
  "is_inf PInf = True"
| "is_inf NInf = True"
| "is_inf (Fin x) = False"
| "is_inf NaN = False"

fun fneg :: "fl \<Rightarrow> fl" where
  "fneg (Fin x) = Fin (- x)"
| "fneg PInf = NInf"
| "fneg NInf = PInf"
| "fneg NaN = NaN"

fun fadd :: "fl \<Rightarrow> fl \<Rightarrow> fl" where
  "fadd (Fin x) (Fin y) = Fin (x + y)"
| "fadd (Fin x) PInf = PInf"
| "fadd (Fin x) NInf = NInf"
| "fadd PInf (Fin y) = PInf"
| "fadd PInf PInf = PInf"
| "fadd PInf NInf = NaN"
| "fadd NInf (Fin y) = NInf"
| "fadd NInf NInf = NInf"
| "fadd NInf PInf = NaN"
| "fadd NaN b = NaN"
| "fadd a NaN = NaN"

definition fsub :: "fl \<Rightarrow> fl \<Rightarrow> fl" where
  "fsub a b = fadd a (fneg b)"

text \<open>The infinity with the sign of a real; \<open>signed_inf 0\<close> is never used.\<close>

definition signed_inf :: "real \<Rightarrow> fl" where
  "signed_inf x = (if 0 \<le> x then PInf else NInf)"

fun fmul :: "fl \<Rightarrow> fl \<Rightarrow> fl" where
  "fmul (Fin x) (Fin y) = Fin (x * y)"
| "fmul (Fin x) PInf = (if x = 0 then NaN else signed_inf x)"
| "fmul (Fin x) NInf = (if x = 0 then NaN else signed_inf (- x))"
| "fmul PInf (Fin y) = (if y = 0 then NaN else signed_inf y)"
| "fmul NInf (Fin y) = (if y = 0 then NaN else signed_inf (- y))"
| "fmul PInf PInf = PInf"
| "fmul PInf NInf = NInf"
| "fmul NInf PInf = NInf"
| "fmul NInf NInf = PInf"
| "fmul NaN b = NaN"
| "fmul a NaN = NaN"

fun fdiv :: "fl \<Rightarrow> fl \<Rightarrow> fl" where
  "fdiv (Fin x) (Fin y) =
     (if y = 0 then (if x = 0 then NaN else signed_inf x) else Fin (x / y))"
| "fdiv (Fin x) PInf = Fin 0"
| "fdiv (Fin x) NInf = Fin 0"
| "fdiv PInf (Fin y) = signed_inf y"
| "fdiv NInf (Fin y) = signed_inf (- y)"
| "fdiv PInf PInf = NaN"
| "fdiv PInf NInf = NaN"
| "fdiv NInf PInf = NaN"
| "fdiv NInf NInf = NaN"
| "fdiv NaN b = NaN"
| "fdiv a NaN = NaN"

fun fabs :: "fl \<Rightarrow> fl" where
  "fabs (Fin x) = Fin \<bar>x\<bar>"
| "fabs PInf = PInf"
| "fabs NInf = PInf"
| "fabs NaN = NaN"

fun fsqrt :: "fl \<Rightarrow> fl" where
  "fsqrt (Fin x) = (if x < 0 then NaN else Fin (sqrt x))"
| "fsqrt PInf = PInf"
| "fsqrt NInf = NaN"
| "fsqrt NaN = NaN"

fun farccos :: "fl \<Rightarrow> fl" where
  "farccos (Fin x) = (if - 1 \<le> x \<and> x \<le> 1 then Fin (arccos x) else NaN)"
| "farccos PInf = NaN"
| "farccos NInf = NaN"
| "farccos NaN = NaN"

text \<open>\<open>a < b\<close> on tensor elements: false as soon as one side is NaN.\<close>

fun fless :: "fl \<Rightarrow> fl \<Rightarrow> bool" where
  "fless (Fin x) (Fin y) = (x < y)"
| "fless (Fin x) PInf = True"
| "fless (Fin x) NInf = False"
| "fless PInf b = False"
| "fless NInf (Fin y) = True"
| "fless NInf PInf = True"
| "fless NInf NInf = False"
| "fless a NaN = False"
| "fless NaN b = False"

definition fle :: "fl \<Rightarrow> fl \<Rightarrow> bool" where
  "fle a b = (fless a b \<or> (a = b \<and> \<not> is_nan a))"

text \<open>\<^verbatim>\<open>torch.maximum\<close> and \<^verbatim>\<open>torch.minimum\<close>, which hand NaN on.\<close>

definition fmax :: "fl \<Rightarrow> fl \<Rightarrow> fl" where
  "fmax a b = (if is_nan a \<or> is_nan b then NaN else if fless a b then b else a)"

definition fmin :: "fl \<Rightarrow> fl \<Rightarrow> fl" where
  "fmin a b = (if is_nan a \<or> is_nan b then NaN else if fless b a then b else a)"

text \<open>\<^verbatim>\<open>torch.clamp(x, lo, hi)\<close> is \<open>min(max(x, lo), hi)\<close>.\<close>

definition fclamp :: "fl \<Rightarrow> fl \<Rightarrow> fl \<Rightarrow> fl" where
  "fclamp x lo hi = fmin (fmax x lo) hi"

definition relu :: "fl \<Rightarrow> fl" where
  "relu x = fmax x (Fin 0)"

type_synonym vec = "fl list"
type_synonym mat = "fl list list"

text \<open>Sums run left to right from zero, as the reductions of numpy and torch do.\<close>

definition fsum :: "vec \<Rightarrow> fl" where
  "fsum xs = foldl fadd (Fin 0) xs"

text \<open>\<^verbatim>\<open>x.mean()\<close>: the mean of no element is \<open>0/0\<close>.\<close>

definition fmean :: "vec \<Rightarrow> fl" where
  "fmean xs = fdiv (fsum xs) (Fin (real (length xs)))"

definition dot :: "vec \<Rightarrow> vec \<Rightarrow> fl" where
  "dot u v = fsum (map2 fmul u v)"

text \<open>\<^verbatim>\<open>v.norm()\<close>, the Euclidean norm.\<close>

definition norm2 :: "vec \<Rightarrow> fl" where
  "norm2 v = fsqrt (fsum (map (\<lambda>x. fmul x x) v))"

definition vsub :: "vec \<Rightarrow> vec \<Rightarrow> vec" where
  "vsub u v = map2 fsub u v"

definition vadd :: "vec \<Rightarrow> vec \<Rightarrow> vec" where
  "vadd u v = map2 fadd u v"

text \<open>A tensor of rank 2 is the list of its rows; one with no row carries no width.\<close>

definition rect :: "nat \<Rightarrow> mat \<Rightarrow> bool" where
  "rect w x = list_all (\<lambda>r. length r = w) x"

definition column :: "nat \<Rightarrow> mat \<Rightarrow> vec" where
  "column j x = map (\<lambda>r. r ! j) x"

datatype error =
  RuntimeError | ValueError | TypeError | IndexError | AttributeError
  | ZeroDivisionError | UnboundLocalError

section \<open>DynamicsNetwork\<close>

text \<open>
  \<^verbatim>\<open>nn.Linear(in_features, out_features)\<close>: \<open>y = x W\<^sup>T + b\<close> on every row, and a
  RuntimeError when the width of \<open>x\<close> is not \<open>in_features\<close>.
\<close>

record linear =
  in_features :: nat
  out_features :: nat
  weight :: mat
  bias :: vec

definition linear_forward :: "linear \<Rightarrow> mat \<Rightarrow> error + mat" where
  "linear_forward l x =
     (if rect (in_features l) x
      then Inr (map (\<lambda>r. vadd (map (dot r) (weight l)) (bias l)) x)
      else Inl RuntimeError)"

text \<open>
  \<^verbatim>\<open>nn.Dropout(p=0.8)\<close>. The module is never switched to evaluation mode, so the
  layer is active in every forward pass: an element is multiplied by \<open>1/(1-p) = 5\<close> when
  it is kept and by \<open>0\<close> when it is dropped. Which elements are kept is drawn from torch's
  generator; the draw of one forward pass is the argument \<open>keep\<close>.
\<close>

definition dropout :: "(nat \<Rightarrow> nat \<Rightarrow> bool) \<Rightarrow> mat \<Rightarrow> mat" where
  "dropout keep x =
     map (\<lambda>(i, r). map (\<lambda>(j, v). fmul v (if keep i j then Fin 5 else Fin 0)) (enumerate 0 r))
       (enumerate 0 x)"

text \<open>The \<^verbatim>\<open>nn.Sequential\<close> of \<^verbatim>\<open>__init__\<close>; the fields are its positions 0, 3 and 5.\<close>

record sequential =
  layer0 :: linear
  layer3 :: linear
  layer5 :: linear

definition sequential_forward :: "(nat \<Rightarrow> nat \<Rightarrow> bool) \<Rightarrow> sequential \<Rightarrow> mat \<Rightarrow> error + mat" where
  "sequential_forward keep s x =
     (case linear_forward (layer0 s) x of Inl e \<Rightarrow> Inl e
      | Inr h0 \<Rightarrow>
        (case linear_forward (layer3 s) (dropout keep (map (map relu) h0)) of Inl e \<Rightarrow> Inl e
         | Inr h3 \<Rightarrow> linear_forward (layer5 s) (map (map relu) h3)))"

text \<open>\<^verbatim>\<open>StandardScaler\<close> after \<^verbatim>\<open>fit\<close>: \<^verbatim>\<open>mean_\<close> and \<^verbatim>\<open>scale_\<close>, one entry for every feature.\<close>

record scaler =
  scaler_mean :: vec
  scaler_scale :: vec

text \<open>
  The state of one \<^verbatim>\<open>DynamicsNetwork\<close>. The optimizer (Adam) is kept abstract: \<open>'o\<close> is
  its state. \<^verbatim>\<open>loss_fn\<close> is the constant \<^verbatim>\<open>MSELoss(reduction='none')\<close>, \<open>mse_loss\<close> below.
\<close>

record 'o DynamicsNetwork =
  model :: sequential
  optimizer :: 'o
  delta :: bool
  dist_flag :: bool
  std :: real
  trained :: bool
  input_scaler :: "scaler option"
  output_scaler :: "scaler option"

text \<open>A tensor argument of \<^verbatim>\<open>forward\<close>: of rank 1 or of rank 2.\<close>

datatype tensor = T1 vec | T2 mat

text \<open>\<^verbatim>\<open>if len(t.shape) == 1: t = t[:, None]\<close>: a vector of \<open>n\<close> elements becomes \<open>n\<close> rows of one.\<close>

definition add_last_axis :: "tensor \<Rightarrow> mat" where
  "add_last_axis t = (case t of T1 v \<Rightarrow> map (\<lambda>x. [x]) v | T2 x \<Rightarrow> x)"

text \<open>\<^verbatim>\<open>torch.cat([a, b], dim=-1)\<close> of two tensors of rank 2.\<close>

definition cat_last :: "mat \<Rightarrow> mat \<Rightarrow> error + mat" where
  "cat_last a b = (if length a = length b then Inr (map2 (@) a b) else Inl RuntimeError)"

text \<open>What \<^verbatim>\<open>forward\<close> returns: a prediction, or \<^verbatim>\<open>Normal(mean, std)\<close>.\<close>

datatype net_output = Pred mat | Normal mat vec

definition loc :: "net_output \<Rightarrow> mat" where
  "loc out = (case out of Pred p \<Rightarrow> p | Normal m s \<Rightarrow> m)"

definition forward ::
  "(nat \<Rightarrow> nat \<Rightarrow> bool) \<Rightarrow> 'o DynamicsNetwork \<Rightarrow> tensor \<Rightarrow> tensor \<Rightarrow> error + net_output" where
  "forward keep m state action =
     (case cat_last (add_last_axis state) (add_last_axis action) of Inl e \<Rightarrow> Inl e
      | Inr state_action \<Rightarrow>
        (case sequential_forward keep (model m) state_action of Inl e \<Rightarrow> Inl e
         | Inr out \<Rightarrow>
           if dist_flag m
           then Inr (Normal out (replicate (out_features (layer5 (model m))) (Fin (std m))))
           else Inr (Pred out)))"

subsection \<open>Scalers\<close>

text \<open>
  \<^verbatim>\<open>StandardScaler\<close> belongs to scikit-learn; its documented behaviour is written out.
  \<^verbatim>\<open>fit\<close>, \<^verbatim>\<open>transform\<close> and \<^verbatim>\<open>inverse_transform\<close> validate their argument first: a
  ValueError for an array with no row or with an infinite entry, and in \<^verbatim>\<open>transform\<close> for
  a width other than the fitted one. NaN is let through: it marks a missing value.
\<close>

definition width :: "mat \<Rightarrow> nat" where
  "width x = (case x of [] \<Rightarrow> 0 | r # rs \<Rightarrow> length r)"

definition check_array :: "mat \<Rightarrow> bool" where
  "check_array x = (x \<noteq> [] \<and> list_all (list_all (\<lambda>v. \<not> is_inf v)) x)"

text \<open>
  \<^verbatim>\<open>fit\<close> takes the mean and the population variance of the entries of a column that are
  not NaN. The scale is the square root of the variance, and 1 for a column that cannot be
  told from a constant one: its variance is at most \<open>n * eps * var + (n * mean * eps)\<^sup>2\<close>,
  with \<open>n\<close> the number of entries counted and \<open>eps = 2\<^sup>-\<^sup>5\<^sup>2\<close>. A column of NaN alone
  has the mean \<open>0/0\<close>, and so the scale NaN.
\<close>

definition present :: "vec \<Rightarrow> vec" where
  "present col = filter (\<lambda>v. \<not> is_nan v) col"

definition col_mean :: "vec \<Rightarrow> fl" where
  "col_mean col = fmean (present col)"

definition col_var :: "vec \<Rightarrow> fl" where
  "col_var col =
     fmean (map (\<lambda>v. fmul (fsub v (col_mean col)) (fsub v (col_mean col))) (present col))"

definition col_scale :: "vec \<Rightarrow> fl" where
  "col_scale col =
     (let n = Fin (real (length (present col)));
          eps = Fin (1 / 2 ^ 52);
          t = fmul (fmul n (col_mean col)) eps;
          upper_bound = fadd (fmul (fmul n eps) (col_var col)) (fmul t t)
      in if fle (col_var col) upper_bound then Fin 1 else fsqrt (col_var col))"

definition fit_scaler :: "mat \<Rightarrow> error + scaler" where
  "fit_scaler x =
     (if \<not> check_array x \<or> \<not> rect (width x) x then Inl ValueError
      else let cols = map (\<lambda>j. column j x) [0..<width x]
           in Inr \<lparr>scaler_mean = map col_mean cols, scaler_scale = map col_scale cols\<rparr>)"

definition transform :: "scaler \<Rightarrow> mat \<Rightarrow> error + mat" where
  "transform sc x =
     (if check_array x \<and> rect (length (scaler_mean sc)) x
      then Inr (map (\<lambda>r. map (\<lambda>(v, m, s). fdiv (fsub v m) s)
                          (zip r (zip (scaler_mean sc) (scaler_scale sc)))) x)
      else Inl ValueError)"

definition inverse_transform :: "scaler \<Rightarrow> mat \<Rightarrow> error + mat" where
  "inverse_transform sc x =
     (if check_array x \<and> rect (length (scaler_scale sc)) x
      then Inr (map (\<lambda>r. map (\<lambda>(v, m, s). fadd (fmul v s) m)
                          (zip r (zip (scaler_mean sc) (scaler_scale sc)))) x)
      else Inl ValueError)"

text \<open>\<^verbatim>\<open>np.append(a, b, axis=-1)\<close> of two arrays of rank 2.\<close>

definition np_append :: "mat \<Rightarrow> mat \<Rightarrow> error + mat" where
  "np_append a b = (if length a = length b then Inr (map2 (@) a b) else Inl ValueError)"

definition set_scalers ::
  "'o DynamicsNetwork \<Rightarrow> mat \<Rightarrow> mat \<Rightarrow> mat \<Rightarrow> error + 'o DynamicsNetwork" where
  "set_scalers m states actions next_states =
     (case np_append states actions of Inl e \<Rightarrow> Inl e
      | Inr states_actions \<Rightarrow>
        (case fit_scaler states_actions of Inl e \<Rightarrow> Inl e
         | Inr isc \<Rightarrow>
           (case fit_scaler next_states of Inl e \<Rightarrow> Inl e
            | Inr osc \<Rightarrow> Inr (m\<lparr>input_scaler := Some isc, output_scaler := Some osc\<rparr>))))"

text \<open>
  \<^verbatim>\<open>get_scaled\<close> with two arguments and with one. A scaler that is still \<^verbatim>\<open>None\<close> has no
  \<^verbatim>\<open>transform\<close>: an AttributeError.
\<close>

definition get_scaled :: "'o DynamicsNetwork \<Rightarrow> mat \<Rightarrow> mat \<Rightarrow> error + mat \<times> mat" where
  "get_scaled m states actions =
     (case np_append states actions of Inl e \<Rightarrow> Inl e
      | Inr states_actions \<Rightarrow>
        (case input_scaler m of None \<Rightarrow> Inl AttributeError
         | Some sc \<Rightarrow>
           (case transform sc states_actions of Inl e \<Rightarrow> Inl e
            | Inr states_actions_scaled \<Rightarrow>
                Inr (map (take (width states)) states_actions_scaled,
                     map (drop (width states)) states_actions_scaled))))"

definition get_scaled_next :: "'o DynamicsNetwork \<Rightarrow> mat \<Rightarrow> error + mat" where
  "get_scaled_next m next_states =
     (case output_scaler m of None \<Rightarrow> Inl AttributeError
      | Some sc \<Rightarrow> transform sc next_states)"

subsection \<open>The gradient step\<close>

text \<open>
  What the libraries decide and the program does not: the random draws and the optimizer.
  The draws of one call are functions of the position drawn; \<open>dropout_mask t\<close> and
  \<open>normal_noise t\<close> are the draws of the \<open>t\<close>-th forward pass of the call. \<open>adam_step\<close> is
  \<^verbatim>\<open>loss = losses.mean(); optimizer.zero_grad(); loss.backward(); optimizer.step()\<close>:
  from the network, the draws of the pass and the batch it gives the new layers and the
  new state of the optimizer.
\<close>

record 'o env =
  xavier_uniform :: "nat \<Rightarrow> nat \<Rightarrow> nat \<Rightarrow> real"
  new_adam :: "real \<Rightarrow> 'o"
  adam_step :: "'o DynamicsNetwork \<Rightarrow> (nat \<Rightarrow> nat \<Rightarrow> bool) \<Rightarrow> (nat \<Rightarrow> nat \<Rightarrow> real)
                  \<Rightarrow> mat \<Rightarrow> mat \<Rightarrow> mat \<Rightarrow> sequential \<times> 'o"
  dropout_mask :: "nat \<Rightarrow> nat \<Rightarrow> nat \<Rightarrow> bool"
  normal_noise :: "nat \<Rightarrow> nat \<Rightarrow> nat \<Rightarrow> real"
  uniform :: "real list \<Rightarrow> nat \<Rightarrow> nat \<Rightarrow> nat \<Rightarrow> real"
  permutation :: "int \<Rightarrow> nat \<Rightarrow> nat list"
  shuffle :: "nat \<Rightarrow> nat list \<Rightarrow> nat list"

text \<open>Elementwise operations on two tensors of one shape; other shapes are a RuntimeError
  (the broadcasting of PyTorch is not modelled).\<close>

definition same_shape :: "mat \<Rightarrow> mat \<Rightarrow> bool" where
  "same_shape a b = list_all2 (\<lambda>r s. length r = length s) a b"

definition madd :: "mat \<Rightarrow> mat \<Rightarrow> error + mat" where
  "madd a b = (if same_shape a b then Inr (map2 vadd a b) else Inl RuntimeError)"

text \<open>\<^verbatim>\<open>nn.MSELoss(reduction='none')\<close>.\<close>

definition mse_loss :: "mat \<Rightarrow> mat \<Rightarrow> error + mat" where
  "mse_loss a b =
     (if same_shape a b
      then Inr (map2 (\<lambda>r s. map2 (\<lambda>x y. fmul (fsub x y) (fsub x y)) r s) a b)
      else Inl RuntimeError)"

text \<open>\<^verbatim>\<open>dist.rsample()\<close>: the mean plus the standard deviation times a standard normal draw.\<close>

definition rsample :: "(nat \<Rightarrow> nat \<Rightarrow> real) \<Rightarrow> mat \<Rightarrow> vec \<Rightarrow> mat" where
  "rsample noise mean sd =
     map (\<lambda>(i, r). map (\<lambda>(j, (v, s)). fadd v (fmul s (Fin (noise i j)))) (enumerate 0 (zip r sd)))
       (enumerate 0 mean)"

definition update ::
  "'o env \<Rightarrow> nat \<Rightarrow> 'o DynamicsNetwork \<Rightarrow> mat \<Rightarrow> mat \<Rightarrow> mat
     \<Rightarrow> error + 'o DynamicsNetwork \<times> mat" where
  "update E t m state action next_state =
     (case forward (dropout_mask E t) m (T2 state) (T2 action) of Inl e \<Rightarrow> Inl e
      | Inr out \<Rightarrow>
        (let prediction = (case out of Normal mean sd \<Rightarrow> rsample (normal_noise E t) mean sd
                                      | Pred p \<Rightarrow> p)
         in case (if delta m then madd state prediction else Inr prediction) of Inl e \<Rightarrow> Inl e
            | Inr pred_next_state \<Rightarrow>
              (case mse_loss pred_next_state next_state of Inl e \<Rightarrow> Inl e
               | Inr losses \<Rightarrow>
                 (let (layers, opt) =
                        adam_step E m (dropout_mask E t) (normal_noise E t) state action next_state
                  in Inr (m\<lparr>model := layers, optimizer := opt\<rparr>, losses)))))"

text \<open>\<^verbatim>\<open>DynamicsNetwork.__init__\<close>: Xavier weights, biases \<open>0.01\<close>, not trained, no scaler.\<close>

definition new_linear :: "(nat \<Rightarrow> nat \<Rightarrow> real) \<Rightarrow> nat \<Rightarrow> nat \<Rightarrow> linear" where
  "new_linear w n_in n_out =
     \<lparr>in_features = n_in, out_features = n_out,
      weight = map (\<lambda>r. map (\<lambda>c. Fin (w r c)) [0..<n_in]) [0..<n_out],
      bias = replicate n_out (Fin (1 / 100))\<rparr>"

definition new_DynamicsNetwork ::
  "'o env \<Rightarrow> nat \<Rightarrow> nat \<Rightarrow> nat \<Rightarrow> real \<Rightarrow> real \<Rightarrow> bool \<Rightarrow> 'o DynamicsNetwork" where
  "new_DynamicsNetwork E state_dim action_dim hidden_dim lr sd dl =
     \<lparr>model = \<lparr>layer0 = new_linear (xavier_uniform E 0) (state_dim + action_dim) hidden_dim,
                layer3 = new_linear (xavier_uniform E 3) hidden_dim hidden_dim,
                layer5 = new_linear (xavier_uniform E 5) hidden_dim state_dim\<rparr>,
      optimizer = new_adam E lr,
      delta = dl,
      dist_flag = (sd > 0),
      std = sd,
      trained = False,
      input_scaler = None,
      output_scaler = None\<rparr>"

section \<open>MPCAgent\<close>

text \<open>
  The state of one \<^verbatim>\<open>MPCAgent\<close>. \<^verbatim>\<open>self.model\<close> and \<^verbatim>\<open>self.delta\<close> are the fields
  \<open>agent_model\<close> and \<open>agent_delta\<close>. The neighbours are agents of which the program reads
  one attribute, \<^verbatim>\<open>neighbor.state\<close>: \<open>neighbors\<close> holds that attribute of every neighbour
  as it is during the call, \<open>None\<close> for a neighbour that has not planned yet. An exception
  is a result \<open>Inl\<close> that carries no state.
\<close>

record 'o MPCAgent =
  agent_model :: "'o DynamicsNetwork"
  seed :: int
  action_dim :: nat
  neighbors :: "vec option list"
  state :: "vec option"
  agent_delta :: bool
  time :: nat

definition new_MPCAgent ::
  "'o env \<Rightarrow> nat \<Rightarrow> nat \<Rightarrow> int \<Rightarrow> nat \<Rightarrow> real \<Rightarrow> real \<Rightarrow> bool \<Rightarrow> 'o MPCAgent" where
  "new_MPCAgent E state_dim act_dim sd hidden_dim lr sdev dl =
     \<lparr>agent_model = new_DynamicsNetwork E state_dim act_dim hidden_dim lr sdev dl,
      seed = sd,
      action_dim = act_dim,
      neighbors = [],
      state = None,
      agent_delta = dl,
      time = 0\<rparr>"

text \<open>
  \<^verbatim>\<open>get_prediction\<close>. The source reads \<^verbatim>\<open>model_output.loc\<close> in the stochastic mode and
  \<^verbatim>\<open>model_output\<close> itself otherwise; \<open>loc\<close> is both.
\<close>

definition get_prediction ::
  "(nat \<Rightarrow> nat \<Rightarrow> bool) \<Rightarrow> 'o MPCAgent \<Rightarrow> mat \<Rightarrow> mat \<Rightarrow> bool \<Rightarrow> error + mat" where
  "get_prediction keep ag states actions scale_input =
     (case (if scale_input then get_scaled (agent_model ag) states actions
            else Inr (states, actions)) of Inl e \<Rightarrow> Inl e
      | Inr (states', actions') \<Rightarrow>
        (case forward keep (agent_model ag) (T2 states') (T2 actions') of Inl e \<Rightarrow> Inl e
         | Inr model_output \<Rightarrow>
           (case (if agent_delta ag then madd (loc model_output) states'
                  else Inr (loc model_output)) of Inl e \<Rightarrow> Inl e
            | Inr next_states_scaled \<Rightarrow>
              (case output_scaler (agent_model ag) of None \<Rightarrow> Inl AttributeError
               | Some sc \<Rightarrow> inverse_transform sc next_states_scaled))))"

subsection \<open>The cost of one step\<close>

definition neighbor_distance :: "mat \<Rightarrow> vec option \<Rightarrow> error + vec" where
  "neighbor_distance states nb =
     (case nb of None \<Rightarrow> Inl TypeError
      | Some s \<Rightarrow> if rect (length s) states then Inr (map (\<lambda>r. norm2 (vsub r s)) states)
                  else Inl RuntimeError)"

fun neighbor_dists :: "mat \<Rightarrow> vec option list \<Rightarrow> error + mat" where
  "neighbor_dists states [] = Inr []"
| "neighbor_dists states (nb # nbs) =
     (case neighbor_distance states nb of Inl e \<Rightarrow> Inl e
      | Inr d \<Rightarrow> (case neighbor_dists states nbs of Inl e \<Rightarrow> Inl e | Inr ds \<Rightarrow> Inr (d # ds)))"

definition swarm_loss :: "'o MPCAgent \<Rightarrow> mat \<Rightarrow> mat \<Rightarrow> error + vec" where
  "swarm_loss ag states goals =
     (case neighbor_dists states (neighbors ag) of Inl e \<Rightarrow> Inl e
      | Inr nd \<Rightarrow>
        if same_shape goals states
        then (let goal_term = map2 (\<lambda>g s. norm2 (vsub g s)) goals states;
                  nd_mean = map (\<lambda>j. fmean (column j nd)) [0..<length states];
                  goal_norm = norm2 (map (\<lambda>c. fmean (column c goals)) [0..<width goals])
              in Inr (map (\<lambda>d. fdiv (fmul d (fmean goal_term)) goal_norm) nd_mean))
        else Inl RuntimeError)"

text \<open>The weights of the cost terms, Python floats.\<close>

record weights =
  swarm_weight :: real
  perp_weight :: real
  angle_weight :: real
  forward_weight :: real

text \<open>What \<^verbatim>\<open>mpc_action\<close> computes from \<^verbatim>\<open>init\<close> and \<^verbatim>\<open>goal\<close> before its loop.\<close>

record line =
  x1 :: fl
  y1 :: fl
  x2 :: fl
  y2 :: fl
  optimal_dot :: vec
  perp_denom :: fl

definition unpack2 :: "vec \<Rightarrow> error + fl \<times> fl" where
  "unpack2 v = (case v of [a, b] \<Rightarrow> Inr (a, b) | _ \<Rightarrow> Inl ValueError)"

definition init_to_goal :: "vec \<Rightarrow> vec \<Rightarrow> error + line" where
  "init_to_goal init goal =
     (case unpack2 init of Inl e \<Rightarrow> Inl e
      | Inr (a1, b1) \<Rightarrow>
        (case unpack2 goal of Inl e \<Rightarrow> Inl e
         | Inr (a2, b2) \<Rightarrow>
           (let vec_to_goal = vsub goal init
            in Inr \<lparr>x1 = a1, y1 = b1, x2 = a2, y2 = b2,
                    optimal_dot = map (\<lambda>v. fdiv v (norm2 vec_to_goal)) vec_to_goal,
                    perp_denom = norm2 vec_to_goal\<rparr>)))"

definition perp_loss :: "line \<Rightarrow> mat \<Rightarrow> vec" where
  "perp_loss L states =
     map (\<lambda>r. fdiv (fabs (fsub (fmul (fsub (x2 L) (x1 L)) (fsub (y1 L) (r ! 1)))
                              (fmul (fsub (x1 L) (r ! 0)) (fsub (y2 L) (y1 L)))))
                  (perp_denom L)) states"

definition angle_loss :: "line \<Rightarrow> mat \<Rightarrow> vec" where
  "angle_loss L vecs_to_goal =
     map (\<lambda>v. farccos (fclamp (dot (optimal_dot L) (map (\<lambda>c. fdiv c (norm2 v)) v))
                          (Fin (- 1)) (Fin 1))) vecs_to_goal"

definition forward_loss :: "line \<Rightarrow> mat \<Rightarrow> vec" where
  "forward_loss L vecs_to_goal = map (\<lambda>v. fabs (dot (optimal_dot L) v)) vecs_to_goal"

definition weighted_sum :: "weights \<Rightarrow> fl \<times> fl \<times> fl \<times> fl \<times> fl \<Rightarrow> fl" where
  "weighted_sum W t =
     (case t of (d, f, p, a, s) \<Rightarrow>
        fadd (fadd (fadd (fadd d (fmul (Fin (forward_weight W)) f))
                         (fmul (Fin (perp_weight W)) p))
                   (fmul (Fin (angle_weight W)) a))
             (fmul (Fin (swarm_weight W)) s))"

text \<open>Lines 159 to 174: the row of \<^verbatim>\<open>all_losses\<close> of one step, from the clamped states.\<close>

definition step_losses ::
  "'o MPCAgent \<Rightarrow> bool \<Rightarrow> weights \<Rightarrow> line \<Rightarrow> mat \<Rightarrow> mat \<Rightarrow> error + vec" where
  "step_losses ag swarm W L goals states =
     (if \<not> rect 2 states then Inl ValueError
      else if \<not> same_shape goals states then Inl RuntimeError
      else (let vecs_to_goal = map2 vsub goals states;
                dist_loss = map norm2 vecs_to_goal
            in case (if swarm then swarm_loss ag states goals
                     else Inr (replicate (length states) (Fin 0))) of Inl e \<Rightarrow> Inl e
               | Inr sl \<Rightarrow>
                   Inr (map (weighted_sum W)
                          (zip dist_loss (zip (forward_loss L vecs_to_goal)
                             (zip (perp_loss L states)
                                (zip (angle_loss L vecs_to_goal) sl)))))))"

subsection \<open>mpc_action\<close>

text \<open>
  \<^verbatim>\<open>torch.clamp(states, *state_range)\<close>: the rows of \<^verbatim>\<open>state_range\<close> are the bounds, numbers
  when it has rank 1 and vectors when it has rank 2. One row is a lower bound alone; no
  row, or more than two, is a TypeError. \<^verbatim>\<open>state_range\<close> is the tensor that \<^verbatim>\<open>to_tensor\<close>
  has made of the argument, so its entries are the bounds as cast to \<^verbatim>\<open>float32\<close>.

  A vector bound is broadcast against the rows: the widths that are not 1 must agree, and
  a vector of width 1 stands for its entry in every column.
\<close>

definition bwidth :: "nat list \<Rightarrow> nat option" where
  "bwidth ks =
     (case filter (\<lambda>k. k \<noteq> 1) ks of [] \<Rightarrow> Some 1
      | k # rest \<Rightarrow> if list_all (\<lambda>j. j = k) rest then Some k else None)"

definition entry :: "vec \<Rightarrow> nat \<Rightarrow> fl" where
  "entry v j = (if length v = 1 then v ! 0 else v ! j)"

definition clamp_rows :: "mat \<Rightarrow> vec \<Rightarrow> vec \<Rightarrow> error + mat" where
  "clamp_rows x lo hi =
     (if list_all (\<lambda>r. bwidth [length r, length lo, length hi] \<noteq> None) x
      then Inr (map (\<lambda>r. case bwidth [length r, length lo, length hi] of None \<Rightarrow> []
                         | Some w \<Rightarrow> map (\<lambda>j. fclamp (entry r j) (entry lo j) (entry hi j)) [0..<w]) x)
      else Inl RuntimeError)"

definition clamp_min_rows :: "mat \<Rightarrow> vec \<Rightarrow> error + mat" where
  "clamp_min_rows x lo =
     (if list_all (\<lambda>r. bwidth [length r, length lo] \<noteq> None) x
      then Inr (map (\<lambda>r. case bwidth [length r, length lo] of None \<Rightarrow> []
                         | Some w \<Rightarrow> map (\<lambda>j. fmax (entry r j) (entry lo j)) [0..<w]) x)
      else Inl RuntimeError)"

definition clamp_range :: "mat \<Rightarrow> tensor \<Rightarrow> error + mat" where
  "clamp_range x state_range =
     (case state_range of
        T1 [lo, hi] \<Rightarrow> Inr (map (map (\<lambda>v. fclamp v lo hi)) x)
      | T1 [lo] \<Rightarrow> Inr (map (map (\<lambda>v. fmax v lo)) x)
      | T2 [lo, hi] \<Rightarrow> clamp_rows x lo hi
      | T2 [lo] \<Rightarrow> clamp_min_rows x lo
      | _ \<Rightarrow> Inl TypeError)"

text \<open>
  \<^verbatim>\<open>torch.argmin\<close>: the first NaN when there is one, the first least element otherwise;
  a RuntimeError on no element.
\<close>

definition better :: "fl \<Rightarrow> fl \<Rightarrow> bool" where
  "better x b = ((is_nan x \<and> \<not> is_nan b) \<or> fless x b)"

fun argmin_from :: "nat \<Rightarrow> fl \<Rightarrow> nat \<Rightarrow> vec \<Rightarrow> nat" where
  "argmin_from bi b i [] = bi"
| "argmin_from bi b i (x # xs) =
     (if better x b then argmin_from i x (Suc i) xs else argmin_from bi b (Suc i) xs)"

definition argmin :: "vec \<Rightarrow> error + nat" where
  "argmin xs = (case xs of [] \<Rightarrow> Inl RuntimeError | x # rest \<Rightarrow> Inr (argmin_from 0 x 1 rest))"

text \<open>\<^verbatim>\<open>all_losses.sum(dim=0)\<close>: one total for each of the \<open>n\<close> samples.\<close>

definition sum_dim0 :: "nat \<Rightarrow> mat \<Rightarrow> vec" where
  "sum_dim0 n all_losses = map (\<lambda>j. fsum (column j all_losses)) [0..<n]"

text \<open>
  \<^verbatim>\<open>torch.empty(n_steps, n_samples, self.action_dim).uniform_(*action_range)\<close>. The entries
  of \<^verbatim>\<open>action_range\<close> are the arguments \<^verbatim>\<open>from\<close> and \<^verbatim>\<open>to\<close> of \<^verbatim>\<open>uniform_\<close>, 0 and 1
  when they are left out; more than two are a TypeError, and \<^verbatim>\<open>from > to\<close> is a
  RuntimeError.
\<close>

definition uniform_bounds :: "real list \<Rightarrow> error + real \<times> real" where
  "uniform_bounds action_range =
     (case action_range of
        [] \<Rightarrow> Inr (0, 1)
      | [a] \<Rightarrow> if 1 < a then Inl RuntimeError else Inr (a, 1)
      | [a, b] \<Rightarrow> if b < a then Inl RuntimeError else Inr (a, b)
      | _ \<Rightarrow> Inl TypeError)"

definition sample_actions :: "'o env \<Rightarrow> 'o MPCAgent \<Rightarrow> real list \<Rightarrow> nat \<Rightarrow> nat \<Rightarrow> mat list" where
  "sample_actions E ag action_range n_steps n_samples =
     map (\<lambda>i. map (\<lambda>j. map (\<lambda>k. Fin (uniform E action_range i j k)) [0..<action_dim ag])
                [0..<n_samples]) [0..<n_steps]"

text \<open>
  The loop of \<^verbatim>\<open>mpc_action\<close> from step \<open>i\<close> on: for every step the states that the costs
  are computed from, and the row of \<^verbatim>\<open>all_losses\<close>.
\<close>

fun mpc_loop ::
  "'o env \<Rightarrow> 'o MPCAgent \<Rightarrow> tensor \<Rightarrow> bool \<Rightarrow> weights \<Rightarrow> line \<Rightarrow> mat \<Rightarrow> nat \<Rightarrow> mat list \<Rightarrow> mat
     \<Rightarrow> error + (mat \<times> vec) list" where
  "mpc_loop E ag state_range swarm W L goals i [] states = Inr []"
| "mpc_loop E ag state_range swarm W L goals i (actions # rest) states =
     (case get_prediction (dropout_mask E i) ag states actions True of Inl e \<Rightarrow> Inl e
      | Inr predicted \<Rightarrow>
        (case clamp_range predicted state_range of Inl e \<Rightarrow> Inl e
         | Inr states' \<Rightarrow>
           (case step_losses ag swarm W L goals states' of Inl e \<Rightarrow> Inl e
            | Inr losses \<Rightarrow>
              (case mpc_loop E ag state_range swarm W L goals (Suc i) rest states' of
                 Inl e \<Rightarrow> Inl e
               | Inr tr \<Rightarrow> Inr ((states', losses) # tr)))))"

definition mpc_rollout ::
  "'o env \<Rightarrow> 'o MPCAgent \<Rightarrow> vec \<Rightarrow> vec \<Rightarrow> vec \<Rightarrow> tensor \<Rightarrow> real list \<Rightarrow> nat \<Rightarrow> nat \<Rightarrow> bool
     \<Rightarrow> weights \<Rightarrow> error + (mat \<times> vec) list" where
  "mpc_rollout E ag st init goal state_range action_range n_steps n_samples swarm W =
     (case uniform_bounds action_range of Inl e \<Rightarrow> Inl e
      | Inr bounds \<Rightarrow>
        (case init_to_goal init goal of Inl e \<Rightarrow> Inl e
         | Inr L \<Rightarrow>
             mpc_loop E (ag\<lparr>state := Some st\<rparr>) state_range swarm W L
               (replicate n_samples goal) 0
               (sample_actions E ag action_range n_steps n_samples)
               (replicate n_samples st)))"

definition mpc_action ::
  "'o env \<Rightarrow> 'o MPCAgent \<Rightarrow> vec \<Rightarrow> vec \<Rightarrow> vec \<Rightarrow> tensor \<Rightarrow> real list \<Rightarrow> nat \<Rightarrow> nat \<Rightarrow> bool
     \<Rightarrow> weights \<Rightarrow> error + vec \<times> 'o MPCAgent" where
  "mpc_action E ag st init goal state_range action_range n_steps n_samples swarm W =
     (case mpc_rollout E ag st init goal state_range action_range n_steps n_samples swarm W of
        Inl e \<Rightarrow> Inl e
      | Inr tr \<Rightarrow>
        (case argmin (sum_dim0 n_samples (map snd tr)) of Inl e \<Rightarrow> Inl e
         | Inr best_idx \<Rightarrow>
             if n_steps = 0 then Inl IndexError
             else Inr (sample_actions E ag action_range n_steps n_samples ! 0 ! best_idx,
                       ag\<lparr>state := Some st\<rparr>)))"

subsection \<open>train and correct\<close>

text \<open>\<^verbatim>\<open>a[idx]\<close> with a list of indices: an IndexError when one of them is out of range.\<close>

definition index_rows :: "'a list \<Rightarrow> nat list \<Rightarrow> error + 'a list" where
  "index_rows xs idx =
     (if list_all (\<lambda>i. i < length xs) idx then Inr (map ((!) xs) idx) else Inl IndexError)"

text \<open>
  \<^verbatim>\<open>train_test_split(states, actions, next_states, test_size=0.1, random_state=seed)\<close> of
  scikit-learn: the three arrays have one length \<open>n\<close>, the test part has \<open>ceil(0.1 * n)\<close>
  rows and the training part the others, and none may be empty. The rows are taken in
  the order of \<^verbatim>\<open>RandomState(seed).permutation(n)\<close>, the test rows first.
\<close>

definition train_test_split ::
  "'o env \<Rightarrow> int \<Rightarrow> mat \<Rightarrow> mat \<Rightarrow> mat \<Rightarrow> error + (mat \<times> mat) \<times> (mat \<times> mat) \<times> (mat \<times> mat)" where
  "train_test_split E sd states actions next_states =
     (let n = length states; n_test = (n + 9) div 10; n_train = n - n_test
      in if length actions \<noteq> n \<or> length next_states \<noteq> n \<or> n_train = 0 then Inl ValueError
         else (let perm = permutation E sd n;
                   ind_test = take n_test perm;
                   ind_train = take n_train (drop n_test perm)
               in case (index_rows states ind_train, index_rows states ind_test) of
                    (Inr s_tr, Inr s_te) \<Rightarrow>
                      (case (index_rows actions ind_train, index_rows actions ind_test) of
                         (Inr a_tr, Inr a_te) \<Rightarrow>
                           (case (index_rows next_states ind_train,
                                  index_rows next_states ind_test) of
                              (Inr n_tr, Inr n_te) \<Rightarrow> Inr ((s_tr, s_te), (a_tr, a_te), (n_tr, n_te))
                            | _ \<Rightarrow> Inl IndexError)
                       | _ \<Rightarrow> Inl IndexError)
                  | _ \<Rightarrow> Inl IndexError))"

text \<open>The first statement of \<^verbatim>\<open>train\<close>: the split, keyed by \<^verbatim>\<open>self.seed\<close>.\<close>

definition train_split ::
  "'o env \<Rightarrow> 'o MPCAgent \<Rightarrow> mat \<Rightarrow> mat \<Rightarrow> mat
     \<Rightarrow> error + (mat \<times> mat) \<times> (mat \<times> mat) \<times> (mat \<times> mat)" where
  "train_split E ag states actions next_states =
     train_test_split E (seed ag) states actions next_states"

text \<open>
  \<^verbatim>\<open>torch.topk(loss, k)[1]\<close>: the indices of the \<open>k\<close> largest elements, largest first, NaN
  counting as the largest; a RuntimeError when \<open>k\<close> exceeds the number of elements. The
  order among equal elements is not fixed by PyTorch; here the earlier index comes first.
\<close>

fun desc_key :: "fl \<Rightarrow> nat \<times> real" where
  "desc_key NaN = (0, 0)"
| "desc_key PInf = (1, 0)"
| "desc_key (Fin x) = (2, - x)"
| "desc_key NInf = (3, 0)"

definition topk :: "vec \<Rightarrow> nat \<Rightarrow> error + nat list" where
  "topk loss k =
     (if k \<le> length loss
      then Inr (take k (sort_key (\<lambda>i. desc_key (loss ! i)) [0..<length loss]))
      else Inl RuntimeError)"

text \<open>
  \<^verbatim>\<open>while len(loss.shape) > 1: loss = loss.sum(axis=-1)\<close> on the losses of \<^verbatim>\<open>update\<close>: one
  loss for every example.
\<close>

definition reduce_loss :: "mat \<Rightarrow> vec" where
  "reduce_loss losses = map fsum losses"

text \<open>
  \<^verbatim>\<open>correct\<close>. \<^verbatim>\<open>loss.squeeze()\<close> leaves a vector of several losses as it is and makes a
  vector of one loss a tensor of rank 0, on which the selection that follows raises a
  RuntimeError.
\<close>

definition correct ::
  "'o env \<Rightarrow> nat \<Rightarrow> 'o MPCAgent \<Rightarrow> mat \<Rightarrow> mat \<Rightarrow> mat \<Rightarrow> vec \<Rightarrow> error + 'o MPCAgent \<times> vec" where
  "correct E t ag states actions next_states loss =
     (let batch_size = length states
      in if length loss = 1 then Inl RuntimeError
         else case topk loss (batch_size div 10) of Inl e \<Rightarrow> Inl e
         | Inr worst_idx \<Rightarrow>
           (case index_rows states worst_idx of Inl e \<Rightarrow> Inl e
            | Inr worst_states \<Rightarrow>
              (case index_rows actions worst_idx of Inl e \<Rightarrow> Inl e
               | Inr worst_actions \<Rightarrow>
                 (case index_rows next_states worst_idx of Inl e \<Rightarrow> Inl e
                  | Inr worst_next_states \<Rightarrow>
                    (case update E t (agent_model ag) worst_states worst_actions
                            worst_next_states of Inl e \<Rightarrow> Inl e
                     | Inr (m, losses) \<Rightarrow> Inr (ag\<lparr>agent_model := m\<rparr>, reduce_loss losses))))))"

text \<open>
  The variables of the loops of \<^verbatim>\<open>train\<close>: the agent, the counter \<open>i\<close>, the number of
  forward passes made so far, and the three lists that \<^verbatim>\<open>train\<close> returns.
\<close>

record 'o train_state =
  ts_agent :: "'o MPCAgent"
  ts_i :: nat
  ts_pass :: nat
  training_losses :: vec
  test_losses :: vec
  test_idx :: "nat list"

text \<open>What the loops read and never assign.\<close>

record train_args =
  batch_size :: nat
  correction_iters :: nat
  test_interval :: int
  test_states :: mat
  test_actions :: mat
  test_next_states :: mat

text \<open>\<^verbatim>\<open>for _ in range(correction_iters): training_loss = self.correct(...)\<close>.\<close>

fun correct_loop ::
  "'o env \<Rightarrow> nat \<Rightarrow> nat \<Rightarrow> 'o MPCAgent \<Rightarrow> mat \<Rightarrow> mat \<Rightarrow> mat \<Rightarrow> vec
     \<Rightarrow> error + 'o MPCAgent \<times> vec \<times> nat" where
  "correct_loop E 0 t ag bs ba bn loss = Inr (ag, loss, t)"
| "correct_loop E (Suc k) t ag bs ba bn loss =
     (case correct E t ag bs ba bn loss of Inl e \<Rightarrow> Inl e
      | Inr (ag', loss') \<Rightarrow> correct_loop E k (Suc t) ag' bs ba bn loss')"

text \<open>Lines 249 to 256: the evaluation on the test part, when \<open>i\<close> is a multiple of the interval.\<close>

definition test_checkpoint :: "'o env \<Rightarrow> train_args \<Rightarrow> 'o train_state \<Rightarrow> error + 'o train_state" where
  "test_checkpoint E A st =
     (case get_prediction (dropout_mask E (ts_pass st)) (ts_agent st)
             (test_states A) (test_actions A) False of Inl e \<Rightarrow> Inl e
      | Inr pred_next_states \<Rightarrow>
        (case mse_loss pred_next_states (test_next_states A) of Inl e \<Rightarrow> Inl e
         | Inr test_loss \<Rightarrow>
             Inr (st\<lparr>ts_pass := Suc (ts_pass st),
                     test_losses := test_losses st @ [fmean (concat test_loss)],
                     test_idx := test_idx st @ [ts_i st]\<rparr>)))"

text \<open>Lines 234 to 258: the body of the loop over the batches, for batch \<open>j\<close>.\<close>

definition batch_step ::
  "'o env \<Rightarrow> train_args \<Rightarrow> mat \<Rightarrow> mat \<Rightarrow> mat \<Rightarrow> nat \<Rightarrow> 'o train_state \<Rightarrow> error + 'o train_state" where
  "batch_step E A train_states train_actions train_next_states j st =
     (let batch_states = take (batch_size A) (drop (j * batch_size A) train_states);
          batch_actions = take (batch_size A) (drop (j * batch_size A) train_actions);
          batch_next_states = take (batch_size A) (drop (j * batch_size A) train_next_states)
      in case update E (ts_pass st) (agent_model (ts_agent st))
                batch_states batch_actions batch_next_states of Inl e \<Rightarrow> Inl e
         | Inr (m, losses) \<Rightarrow>
           (case correct_loop E (correction_iters A) (Suc (ts_pass st))
                   ((ts_agent st)\<lparr>agent_model := m\<rparr>)
                   batch_states batch_actions batch_next_states (reduce_loss losses) of
              Inl e \<Rightarrow> Inl e
            | Inr (ag, training_loss, t) \<Rightarrow>
              (let st1 = st\<lparr>ts_agent := ag, ts_pass := t,
                            training_losses := training_losses st @ [fmean training_loss]\<rparr>
               in case (if int (ts_i st1) mod test_interval A = 0 then test_checkpoint E A st1
                        else Inr st1) of Inl e \<Rightarrow> Inl e
                  | Inr st2 \<Rightarrow> Inr (st2\<lparr>ts_i := Suc (ts_i st2)\<rparr>))))"

fun batch_loop ::
  "'o env \<Rightarrow> train_args \<Rightarrow> mat \<Rightarrow> mat \<Rightarrow> mat \<Rightarrow> nat list \<Rightarrow> 'o train_state
     \<Rightarrow> error + 'o train_state" where
  "batch_loop E A ts ta tn [] st = Inr st"
| "batch_loop E A ts ta tn (j # js) st =
     (case batch_step E A ts ta tn j st of Inl e \<Rightarrow> Inl e
      | Inr st' \<Rightarrow> batch_loop E A ts ta tn js st')"

text \<open>
  The loop over the epochs, from epoch \<open>ep\<close> on with \<open>k\<close> epochs left:
  \<^verbatim>\<open>np.random.shuffle(idx)\<close>, then the training part is indexed by \<open>idx\<close>, then the batches.
\<close>

fun epoch_loop ::
  "'o env \<Rightarrow> train_args \<Rightarrow> nat \<Rightarrow> nat \<Rightarrow> nat \<Rightarrow> nat list \<Rightarrow> mat \<Rightarrow> mat \<Rightarrow> mat \<Rightarrow> 'o train_state
     \<Rightarrow> error + 'o train_state" where
  "epoch_loop E A n_batches ep 0 idx ts ta tn st = Inr st"
| "epoch_loop E A n_batches ep (Suc k) idx ts ta tn st =
     (let idx' = shuffle E ep idx
      in case index_rows ts idx' of Inl e \<Rightarrow> Inl e
         | Inr ts' \<Rightarrow>
           (case index_rows ta idx' of Inl e \<Rightarrow> Inl e
            | Inr ta' \<Rightarrow>
              (case index_rows tn idx' of Inl e \<Rightarrow> Inl e
               | Inr tn' \<Rightarrow>
                 (case batch_loop E A ts' ta' tn' [0..<n_batches] st of Inl e \<Rightarrow> Inl e
                  | Inr st' \<Rightarrow> epoch_loop E A n_batches (Suc ep) k idx' ts' ta' tn' st'))))"

text \<open>
  Lines 221 to 224: \<^verbatim>\<open>len(train_states) / batch_size\<close>, one more when it is not whole,
  cut to an integer by \<^verbatim>\<open>int\<close> (towards zero).
\<close>

definition py_int :: "real \<Rightarrow> int" where
  "py_int q = (if 0 \<le> q then \<lfloor>q\<rfloor> else \<lceil>q\<rceil>)"

definition n_batches_of :: "nat \<Rightarrow> int \<Rightarrow> error + int" where
  "n_batches_of n bsz =
     (if bsz = 0 then Inl ZeroDivisionError
      else (let q = real n / real_of_int bsz
            in Inr (if real_of_int (py_int q) \<noteq> q then py_int (q + 1) else py_int q)))"

definition train ::
  "'o env \<Rightarrow> 'o MPCAgent \<Rightarrow> mat \<Rightarrow> mat \<Rightarrow> mat \<Rightarrow> int \<Rightarrow> int \<Rightarrow> int \<Rightarrow> int
     \<Rightarrow> error + 'o MPCAgent \<times> vec \<times> vec \<times> nat list" where
  "train E ag states actions next_states epochs bsz corr_iters n_tests =
     (case train_split E ag states actions next_states of Inl e \<Rightarrow> Inl e
      | Inr ((train_states, test_s), (train_actions, test_a), (train_next_states, test_n)) \<Rightarrow>
        (case n_batches_of (length train_states) bsz of Inl e \<Rightarrow> Inl e
         | Inr n_batches \<Rightarrow>
           if n_tests = 0 then Inl ZeroDivisionError
           else (let ti = epochs * n_batches div n_tests;
                     A = \<lparr>batch_size = nat bsz, correction_iters = nat corr_iters,
                          test_interval = (if ti = 0 then 1 else ti),
                          test_states = test_s, test_actions = test_a,
                          test_next_states = test_n\<rparr>;
                     st0 = \<lparr>ts_agent = ag, ts_i = 0, ts_pass = 0, training_losses = [],
                            test_losses = [], test_idx = []\<rparr>
                 in case epoch_loop E A (nat n_batches) 0 (nat epochs)
                           [0..<length train_states] train_states train_actions
                           train_next_states st0 of Inl e \<Rightarrow> Inl e
                    | Inr st \<Rightarrow>
                        Inr ((ts_agent st)\<lparr>agent_model :=
                                (agent_model (ts_agent st))\<lparr>trained := True\<rparr>\<rparr>,
                             training_losses st, test_losses st, test_idx st))))"

subsection \<open>optimal_policy\<close>

text \<open>
  \<^verbatim>\<open>state\<close> and \<^verbatim>\<open>goal\<close> are vectors of one length, \<^verbatim>\<open>table\<close> has a row for every
  candidate, the action in column 0 and its effect in column 1. In the branch
  \<^verbatim>\<open>swarm=True\<close> \<^verbatim>\<open>min_idx\<close> is never assigned, so the \<^verbatim>\<open>return table[min_idx, 0]\<close>
  that both branches share would raise. The branch does not get there: its line 287 calls
  \<^verbatim>\<open>self.mse_loss\<close> on a tensor and the numpy array that \<^verbatim>\<open>np.tile\<close> returns, which
  \<^verbatim>\<open>mse_loss\<close> refuses with a TypeError.
\<close>

definition table_effects :: "mat \<Rightarrow> error + vec" where
  "table_effects table =
     (if list_all (\<lambda>r. 2 \<le> length r) table then Inr (map (\<lambda>r. r ! 1) table)
      else Inl IndexError)"

fun neighbor_sq_dists :: "mat \<Rightarrow> vec option list \<Rightarrow> error + mat list" where
  "neighbor_sq_dists states [] = Inr []"
| "neighbor_sq_dists states (nb # nbs) =
     (case nb of None \<Rightarrow> Inl TypeError
      | Some s \<Rightarrow>
        (case mse_loss states (replicate (length states) s) of Inl e \<Rightarrow> Inl e
         | Inr d \<Rightarrow>
           (case neighbor_sq_dists states nbs of Inl e \<Rightarrow> Inl e | Inr ds \<Rightarrow> Inr (d # ds))))"

definition swarm_costs :: "'o MPCAgent \<Rightarrow> vec \<Rightarrow> vec \<Rightarrow> mat \<Rightarrow> real \<Rightarrow> error + mat" where
  "swarm_costs ag st goal table sw =
     (if length goal \<noteq> length st then Inl ValueError
      else case table_effects table of Inl e \<Rightarrow> Inl e
           | Inr effects \<Rightarrow>
             (let states = map (\<lambda>d. map (\<lambda>s. fadd s d) st) effects
              in case neighbor_sq_dists states (neighbors ag) of Inl e \<Rightarrow> Inl e
                 | Inr nd \<Rightarrow> Inl TypeError))"

definition optimal_policy ::
  "'o MPCAgent \<Rightarrow> vec \<Rightarrow> vec \<Rightarrow> mat \<Rightarrow> bool \<Rightarrow> real \<Rightarrow> error + vec" where
  "optimal_policy ag st goal table swarm sw =
     (if swarm
      then (case swarm_costs ag st goal table sw of Inl e \<Rightarrow> Inl e
            | Inr costs \<Rightarrow> Inl UnboundLocalError)
      else if length goal \<noteq> length st then Inl ValueError
      else case table_effects table of Inl e \<Rightarrow> Inl e
           | Inr effects \<Rightarrow>
             if table = [] then Inl ValueError
             else (let vec = vsub goal st;
                       diff = map (\<lambda>d. map (\<lambda>v. fabs (fsub v d)) vec) effects;
                       min_idx = map (\<lambda>c. argmin_from 0 (hd (column c diff)) 1 (tl (column c diff)))
                                   [0..<length vec]
                   in Inr (map (\<lambda>i. table ! i ! 0) min_idx)))"

section \<open>Well-formed objects and examples\<close>



text \<open>
  A network for states of two coordinates and actions of one, with one hidden unit; its
  prediction is the bias of its last layer. An agent around it, and draws that keep every
  unit, add no noise, sample the action 0 and leave every order as it is; the optimizer of
  these draws has no state and leaves the layers as they are.
\<close>

definition keep_all :: "nat \<Rightarrow> nat \<Rightarrow> bool" where
  "keep_all i j = True"

definition net0 :: "unit DynamicsNetwork" where
  "net0 =
     \<lparr>model = \<lparr>layer0 = \<lparr>in_features = 3, out_features = 1,
                          weight = [[Fin 0, Fin 0, Fin 0]], bias = [Fin 0]\<rparr>,
                layer3 = \<lparr>in_features = 1, out_features = 1,
                          weight = [[Fin 0]], bias = [Fin 0]\<rparr>,
                layer5 = \<lparr>in_features = 1, out_features = 2,
                          weight = [[Fin 0], [Fin 0]], bias = [Fin 1, Fin 2]\<rparr>\<rparr>,
      optimizer = (), delta = False, dist_flag = False, std = 0, trained = False,
      input_scaler = Some \<lparr>scaler_mean = [Fin 0, Fin 0, Fin 0],
                           scaler_scale = [Fin 1, Fin 1, Fin 1]\<rparr>,
      output_scaler = Some \<lparr>scaler_mean = [Fin 0, Fin 0], scaler_scale = [Fin 1, Fin 1]\<rparr>\<rparr>"

definition agent0 :: "unit MPCAgent" where
  "agent0 = \<lparr>agent_model = net0, seed = 1, action_dim = 1, neighbors = [], state = None,
             agent_delta = False, time = 0\<rparr>"

definition E0 :: "unit env" where
  "E0 = \<lparr>xavier_uniform = (\<lambda>l r c. 0), new_adam = (\<lambda>lr. ()),
         adam_step = (\<lambda>m keep noise s a n. (model m, optimizer m)),
         dropout_mask = (\<lambda>t. keep_all), normal_noise = (\<lambda>t i j. 0),
         uniform = (\<lambda>r i j k. 0), permutation = (\<lambda>sd n. [0..<n]),
         shuffle = (\<lambda>ep idx. idx)\<rparr>"

text \<open>
  A second network, whose prediction is the action in the first coordinate and 0 in the
  second, and an agent that adds it to the state. Draws of two actions for each of two
  samples, (2, 0) and (1, 5), and draws of one action for each of three samples, 0, 7
  and 4.
\<close>

definition net1 :: "unit DynamicsNetwork" where
  "net1 =
     net0\<lparr>model := \<lparr>layer0 = \<lparr>in_features = 3, out_features = 1,
                               weight = [[Fin 0, Fin 0, Fin 1]], bias = [Fin 0]\<rparr>,
                     layer3 = \<lparr>in_features = 1, out_features = 1,
                               weight = [[Fin (1 / 5)]], bias = [Fin 0]\<rparr>,
                     layer5 = \<lparr>in_features = 1, out_features = 2,
                               weight = [[Fin 1], [Fin 0]], bias = [Fin 0, Fin 0]\<rparr>\<rparr>\<rparr>"

definition agent1 :: "unit MPCAgent" where
  "agent1 = agent0\<lparr>agent_model := net1, agent_delta := True\<rparr>"

definition E1 :: "unit env" where
  "E1 = E0\<lparr>uniform := (\<lambda>r i j k. if i = 0 then (if j = 0 then 2 else 1)
                                   else (if j = 0 then 0 else 5))\<rparr>"

definition E2 :: "unit env" where
  "E2 = E0\<lparr>uniform := (\<lambda>r i j k. if j = 0 then 0 else if j = 1 then 7 else 4)\<rparr>"

text \<open>A state of the loops of \<^verbatim>\<open>train\<close> with its arguments.\<close>

definition args0 :: train_args where
  "args0 = \<lparr>batch_size = 1, correction_iters = 0, test_interval = 1,
            test_states = [[Fin 1, Fin 2]], test_actions = [[Fin 0]],
            test_next_states = [[Fin 1, Fin 2]]\<rparr>"

definition tstate0 :: "unit train_state" where
  "tstate0 = \<lparr>ts_agent = agent0, ts_i = 0, ts_pass = 0, training_losses = [],
              test_losses = [], test_idx = []\<rparr>"


text \<open>The default weights of \<^verbatim>\<open>mpc_action\<close>.\<close>

definition weights0 :: weights where
  "weights0 = \<lparr>swarm_weight = 1 / 10, perp_weight = 0, angle_weight = 0, forward_weight = 0\<rparr>"

text \<open>
  Tensors of finite entries and tensors with no NaN, and an agent with finite weights and
  finite fitted statistics, the input scales other than zero.
\<close>

definition finite_vec :: "vec \<Rightarrow> bool" where
  "finite_vec v = list_all is_finite v"

definition finite_mat :: "mat \<Rightarrow> bool" where
  "finite_mat x = list_all finite_vec x"

definition nan_free :: "mat \<Rightarrow> bool" where
  "nan_free x = list_all (list_all (\<lambda>v. \<not> is_nan v)) x"

definition finite_linear :: "linear \<Rightarrow> bool" where
  "finite_linear l = (finite_mat (weight l) \<and> finite_vec (bias l))"

definition regular_agent :: "'o MPCAgent \<Rightarrow> bool" where
  "regular_agent ag =
     (finite_linear (layer0 (model (agent_model ag)))
      \<and> finite_linear (layer3 (model (agent_model ag)))
      \<and> finite_linear (layer5 (model (agent_model ag)))
      \<and> (case input_scaler (agent_model ag) of None \<Rightarrow> True
          | Some sc \<Rightarrow> finite_vec (scaler_mean sc)
                       \<and> list_all (\<lambda>s. is_finite s \<and> s \<noteq> Fin 0) (scaler_scale sc))
      \<and> (case output_scaler (agent_model ag) of None \<Rightarrow> True
          | Some sc \<Rightarrow> finite_vec (scaler_mean sc) \<and> finite_vec (scaler_scale sc)))"

text \<open>
  The bounds that \<^verbatim>\<open>state_range\<close> holds for column \<open>j\<close> when it has a lower and an upper
  row, bounds with \<open>lo \<le> hi\<close> in every column, and the states that lie within them.
\<close>

fun lower :: "tensor \<Rightarrow> nat \<Rightarrow> fl" where
  "lower (T1 [lo, hi]) j = lo"
| "lower (T2 [lo, hi]) j = entry lo j"
| "lower t j = NaN"

fun upper :: "tensor \<Rightarrow> nat \<Rightarrow> fl" where
  "upper (T1 [lo, hi]) j = hi"
| "upper (T2 [lo, hi]) j = entry hi j"
| "upper t j = NaN"

fun proper_range :: "tensor \<Rightarrow> bool" where
  "proper_range (T1 [lo, hi]) = fle lo hi"
| "proper_range (T2 [lo, hi]) =
     (bwidth [length lo, length hi] \<noteq> None
      \<and> list_all (\<lambda>j. fle (entry lo j) (entry hi j)) [0..<max (length lo) (length hi)])"
| "proper_range t = False"

definition between :: "tensor \<Rightarrow> nat \<Rightarrow> fl \<Rightarrow> bool" where
  "between sr j v = (fle (lower sr j) v \<and> fle v (upper sr j))"

definition in_range :: "tensor \<Rightarrow> mat \<Rightarrow> bool" where
  "in_range sr x = list_all (\<lambda>r. list_all (\<lambda>(j, v). between sr j v) (enumerate 0 r)) x"

text \<open>
  Clamping element-wise, as a relation: \<open>v\<close> is what \<open>p\<close> is clamped to between \<open>lo\<close> and
  \<open>hi\<close>, and the rows of \<open>states\<close> are what the rows of \<open>predicted\<close> are clamped to between
  the bounds of their columns. NaN is clamped to NaN.
\<close>

definition clamp_of :: "fl \<Rightarrow> fl \<Rightarrow> fl \<Rightarrow> fl \<Rightarrow> bool" where
  "clamp_of lo hi p v =
     (if is_nan p then v = NaN else if fless p lo then v = lo else if fless hi p then v = hi
      else v = p)"

definition clamped_from :: "tensor \<Rightarrow> mat \<Rightarrow> mat \<Rightarrow> bool" where
  "clamped_from sr predicted states =
     list_all2 (\<lambda>p r. list_all (\<lambda>(j, v). clamp_of (lower sr j) (upper sr j) (entry p j) v)
                        (enumerate 0 r)) predicted states"


text \<open>What \<^verbatim>\<open>mpc_action\<close> computes before its loop when \<^verbatim>\<open>init\<close> and \<^verbatim>\<open>goal\<close> are both (4, 6).\<close>

definition line0 :: line where
  "line0 = \<lparr>x1 = Fin 4, y1 = Fin 6, x2 = Fin 4, y2 = Fin 6,
            optimal_dot = [NaN, NaN], perp_denom = Fin 0\<rparr>"

section \<open>Shapes of the forward pass\<close>











section \<open>Evaluation during training\<close>

text \<open>
  C7. A test checkpoint of \<^verbatim>\<open>train\<close> (the prediction on the test part with
  \<^verbatim>\<open>scale_input=False\<close> and its loss) leaves the agent as it is: the layers, the state of
  the optimizer, the scalers and the flag. It appends one loss and the counter to the two
  test lists and changes nothing else of the loop but the count of forward passes.
\<close>

theorem test_checkpoint_frame:
  assumes "test_checkpoint E A st = Inr st'"
  shows "ts_agent st' = ts_agent st \<and> training_losses st' = training_losses st
         \<and> ts_i st' = ts_i st
         \<and> (\<exists>l. test_losses st' = test_losses st @ [l]) \<and> test_idx st' = test_idx st @ [ts_i st]"
  using assms by (auto simp: test_checkpoint_def split: sum.splits)

lemma test_checkpoint0:
  "test_checkpoint E0 args0 tstate0 = Inr (tstate0\<lparr>ts_pass := 1, test_losses := [Fin 0], test_idx := [0]\<rparr>)"
  by (simp add: test_checkpoint_def args0_def tstate0_def E0_def keep_all_def
      get_prediction_def agent0_def mse_loss_def same_shape_def fmean_def
      check_array_def inverse_transform_def fsub_def
      forward_def net0_def add_last_axis_def cat_last_def sequential_forward_def loc_def
      linear_forward_def rect_def dropout_def relu_def fmax_def vadd_def dot_def fsum_def)

theorem test_checkpoint_frame_witness:
  "\<exists>st'. test_checkpoint E0 args0 tstate0 = Inr st' \<and> ts_agent st' = agent0"
  using test_checkpoint_frame [of E0 args0 tstate0] test_checkpoint0
  by (simp add: tstate0_def)

section \<open>The flag \<open>trained\<close>\<close>

lemma update_trained: "update E t m s a n = Inr (m', l) \<Longrightarrow> trained m' = trained m"
  by (auto simp: update_def Let_def split: sum.splits if_splits prod.splits)

lemma set_scalers_trained: "set_scalers m s a n = Inr m' \<Longrightarrow> trained m' = trained m"
  by (auto simp: set_scalers_def split: sum.splits)

lemma correct_trained:
  "correct E t ag s a n loss = Inr (ag', l) \<Longrightarrow> trained (agent_model ag') = trained (agent_model ag)"
  by (auto simp: correct_def Let_def split: sum.splits if_splits dest: update_trained)

lemma mpc_action_trained:
  "mpc_action E ag st init goal sr ar ns nsm sw W = Inr (a, ag')
     \<Longrightarrow> trained (agent_model ag') = trained (agent_model ag)"
  by (auto simp: mpc_action_def split: sum.splits if_splits)

lemma train_trained:
  "train E ag s a n ep b c nt = Inr (ag', r) \<Longrightarrow> trained (agent_model ag')"
  by (auto simp: train_def Let_def split: sum.splits if_splits prod.splits)

lemma get_prediction_trained:
  "get_prediction keep (ag\<lparr>agent_model := (agent_model ag)\<lparr>trained := b\<rparr>\<rparr>) x y si
     = get_prediction keep ag x y si"
  by (simp add: get_prediction_def get_scaled_def forward_def
      cong: sum.case_cong option.case_cong if_cong)

lemma new_trained: "trained (agent_model (new_MPCAgent E sd ad s h lr sdv dl)) = False"
  by (simp add: new_MPCAgent_def new_DynamicsNetwork_def)

text \<open>
  C9 as stated fails: the flag does not wait for an update. With \<^verbatim>\<open>epochs=0\<close> the loops
  of \<^verbatim>\<open>train\<close> run no batch, the agent comes back with the layers and the optimizer it
  had, no training loss is recorded, and the flag is set.
\<close>

theorem train_without_update_counterexample:
  "trained (agent_model agent0) = False
   \<and> train E0 agent0 [[Fin 1, Fin 2], [Fin 3, Fin 4]] [[Fin 0], [Fin 1]]
        [[Fin 1, Fin 2], [Fin 3, Fin 4]] 0 1 0 1
      = Inr (agent0\<lparr>agent_model := net0\<lparr>trained := True\<rparr>\<rparr>, [], [], [])"
  by (simp add: train_def train_split_def train_test_split_def Let_def E0_def index_rows_def
      agent0_def n_batches_of_def py_int_def net0_def)

lemma train1: "train E0 agent0 [[Fin 1, Fin 2], [Fin 3, Fin 4]] [[Fin 0], [Fin 1]]
        [[Fin 1, Fin 2], [Fin 3, Fin 4]] 1 1 0 1
      = Inr (agent0\<lparr>agent_model := net0\<lparr>trained := True\<rparr>\<rparr>, [Fin 8], [Fin 0], [0])"
  by (simp add: train_def train_split_def train_test_split_def Let_def E0_def index_rows_def
      agent0_def n_batches_of_def py_int_def net0_def batch_step_def update_def
      test_checkpoint_def keep_all_def reduce_loss_def
      get_prediction_def mse_loss_def same_shape_def fmean_def
      check_array_def inverse_transform_def fsub_def
      forward_def add_last_axis_def cat_last_def sequential_forward_def loc_def
      linear_forward_def rect_def dropout_def relu_def fmax_def vadd_def dot_def fsum_def)

text \<open>
  C9. The flag is false in a new agent; every \<^verbatim>\<open>train\<close> call that returns leaves
  it true, whether or not an update ran in it; \<^verbatim>\<open>update\<close>, \<^verbatim>\<open>set_scalers\<close>, \<^verbatim>\<open>correct\<close>
  and \<^verbatim>\<open>mpc_action\<close> leave it as it is, so nothing sets it back to false; and
  \<^verbatim>\<open>get_prediction\<close> gives the same result whatever the flag is.
\<close>

theorem trained_flag_one_way:
  "trained (agent_model (new_MPCAgent E sd ad sdim h lr sdv dl)) = False
   \<and> (\<forall>ag' r. train E ag S A N ep bsz c nt = Inr (ag', r) \<longrightarrow> trained (agent_model ag'))
   \<and> (\<forall>m' l. update E t m S A N = Inr (m', l) \<longrightarrow> trained m' = trained m)
   \<and> (\<forall>m'. set_scalers m S A N = Inr m' \<longrightarrow> trained m' = trained m)
   \<and> (\<forall>ag' l. correct E t ag S A N loss = Inr (ag', l)
         \<longrightarrow> trained (agent_model ag') = trained (agent_model ag))
   \<and> (\<forall>a ag'. mpc_action E ag st init goal sr ar ns nsm sw W = Inr (a, ag')
         \<longrightarrow> trained (agent_model ag') = trained (agent_model ag))
   \<and> get_prediction keep (ag\<lparr>agent_model := (agent_model ag)\<lparr>trained := b\<rparr>\<rparr>) X Y si
       = get_prediction keep ag X Y si"
  by (auto simp: new_trained get_prediction_trained
      dest: train_trained update_trained set_scalers_trained correct_trained mpc_action_trained)

theorem trained_flag_one_way_witness:
  "\<exists>ag' r. train E0 agent0 [[Fin 1, Fin 2], [Fin 3, Fin 4]] [[Fin 0], [Fin 1]]
        [[Fin 1, Fin 2], [Fin 3, Fin 4]] 1 1 0 1 = Inr (ag', r)
      \<and> trained (agent_model agent0) = False \<and> trained (agent_model ag')"
  using trained_flag_one_way [where E = E0 and ag = agent0
      and S = "[[Fin 1, Fin 2], [Fin 3, Fin 4]]" and A = "[[Fin 0], [Fin 1]]"
      and N = "[[Fin 1, Fin 2], [Fin 3, Fin 4]]" and ep = 1 and bsz = 1 and c = 0 and nt = 1]
    train1
  by (simp add: agent0_def net0_def)

section \<open>optimal_policy with swarm\<close>

lemma neighbor_sq_dists_error:
  "neighbor_sq_dists states nbs = Inl e \<Longrightarrow> e = TypeError \<or> e = RuntimeError"
  by (induction nbs arbitrary: e)
     (auto simp: mse_loss_def split: option.splits sum.splits if_splits)

lemma optimal_policy_swarm_not_unbound:
  "optimal_policy ag st goal table True sw \<noteq> Inl UnboundLocalError"
  by (auto simp: optimal_policy_def swarm_costs_def table_effects_def Let_def
      split: sum.splits if_splits dest: neighbor_sq_dists_error)

text \<open>
  C10. With \<^verbatim>\<open>swarm=True\<close> \<^verbatim>\<open>optimal_policy\<close> returns no value, whatever its
  arguments: a statement of the swarm branch raises, at the latest the call of
  \<^verbatim>\<open>self.mse_loss\<close> on a tensor and a numpy array in line 287, so that the \<^verbatim>\<open>return\<close>
  that reads \<^verbatim>\<open>min_idx\<close>, which the branch never assigns, is not reached.
\<close>

theorem optimal_policy_swarm_fails:
  "\<exists>e. optimal_policy ag st goal table True sw = Inl e"
  by (simp add: optimal_policy_def split: sum.splits)

text \<open>
  C10 as stated fails: the error is not the unbound variable. A neighbour that has
  not planned yet has the state \<^verbatim>\<open>None\<close>, and \<^verbatim>\<open>torch.tile\<close> raises a TypeError on it
  before the \<^verbatim>\<open>return\<close> is reached.
\<close>

theorem optimal_policy_swarm_counterexample:
  "optimal_policy (agent0\<lparr>neighbors := [None]\<rparr>) [Fin 0] [Fin 1] [[Fin 0, Fin 1]] True (3 / 10)
     = Inl TypeError"
  by (simp add: optimal_policy_def swarm_costs_def table_effects_def)

section \<open>The action that mpc_action returns\<close>







lemma mpc_loop_length:
  "mpc_loop E ag sr sw W L goals i acts states = Inr tr \<Longrightarrow> length tr = length acts"
proof (induction acts arbitrary: i states tr)
  case Nil
  then show ?case by simp
next
  case (Cons a acts)
  then show ?case by (auto split: sum.splits)
qed














lemma sample_actions_length: "length (sample_actions E ag ar n_steps n_samples) = n_steps"
  by (simp add: sample_actions_def)



lemma sqrt_25: "sqrt 25 = 5"
  by (rule real_sqrt_unique) simp_all

lemma sqrt_16: "sqrt 16 = 4"
  by (rule real_sqrt_unique) simp_all

lemma sqrt_9: "sqrt 9 = 3"
  by (rule real_sqrt_unique) simp_all

lemmas eval_defs = keep_all_def
      get_prediction_def get_scaled_def np_append_def transform_def width_def
      mse_loss_def same_shape_def fmean_def
      check_array_def inverse_transform_def fsub_def
      forward_def add_last_axis_def cat_last_def sequential_forward_def loc_def
      linear_forward_def rect_def dropout_def relu_def fmax_def fmin_def fclamp_def
      vadd_def vsub_def dot_def fsum_def norm2_def

lemmas plan_defs = mpc_action_def mpc_rollout_def uniform_bounds_def init_to_goal_def unpack2_def
      sample_actions_def
      E0_def agent0_def net0_def weights0_def clamp_range_def step_losses_def
      forward_loss_def perp_loss_def angle_loss_def weighted_sum_def sum_dim0_def column_def
      argmin_def better_def sqrt_25 eval_defs eval_nat_numeral

lemmas plan1_defs = E1_def E2_def agent1_def net1_def madd_def sqrt_16 sqrt_9 plan_defs

lemma rollout1:
  "mpc_rollout E1 agent1 [Fin 0, Fin 0] [Fin 0, Fin 0] [Fin 5, Fin 0] (T1 [Fin 0, Fin 4])
       [0, 6] 2 2 False weights0
     = Inr [([[Fin 2, Fin 0], [Fin 1, Fin 0]], [Fin 3, Fin 4]),
            ([[Fin 2, Fin 0], [Fin 4, Fin 0]], [Fin 3, Fin 1])]"
  by (simp add: plan1_defs)







section \<open>Clamped states\<close>

lemma finite_vec_iff: "finite_vec v = (\<forall>x \<in> set v. is_finite x)"
  by (simp add: finite_vec_def list_all_iff)

lemma finite_mat_iff: "finite_mat x = (\<forall>r \<in> set x. \<forall>v \<in> set r. is_finite v)"
  by (simp add: finite_mat_def finite_vec_iff list_all_iff)

lemma is_finite_iff: "is_finite v = (\<exists>x. v = Fin x)"
  by (cases v) auto

lemma zip_memD: "(a, b) \<in> set (zip u v) \<Longrightarrow> a \<in> set u \<and> b \<in> set v"
  by (meson set_zip_leftD set_zip_rightD)

lemma finite_fadd: "is_finite a \<Longrightarrow> is_finite b \<Longrightarrow> is_finite (fadd a b)"
  by (auto simp: is_finite_iff)

lemma finite_fmul: "is_finite a \<Longrightarrow> is_finite b \<Longrightarrow> is_finite (fmul a b)"
  by (auto simp: is_finite_iff)

lemma finite_relu: "is_finite a \<Longrightarrow> is_finite (relu a)"
  by (auto simp: is_finite_iff relu_def fmax_def)

lemma finite_foldl_fadd:
  "is_finite a \<Longrightarrow> finite_vec xs \<Longrightarrow> is_finite (foldl fadd a xs)"
  by (induction xs arbitrary: a) (auto simp: finite_vec_def finite_fadd)

lemma finite_fsum: "finite_vec xs \<Longrightarrow> is_finite (fsum xs)"
  by (simp add: fsum_def finite_foldl_fadd)

lemma finite_dot: "finite_vec u \<Longrightarrow> finite_vec v \<Longrightarrow> is_finite (dot u v)"
  unfolding dot_def
  by (rule finite_fsum) (auto simp: finite_vec_iff dest!: zip_memD intro!: finite_fmul)

lemma finite_vadd: "finite_vec u \<Longrightarrow> finite_vec v \<Longrightarrow> finite_vec (vadd u v)"
  by (auto simp: vadd_def finite_vec_iff dest!: zip_memD intro!: finite_fadd)

lemma finite_linear_forward:
  assumes "linear_forward l x = Inr y" and "finite_linear l" and "finite_mat x"
  shows "finite_mat y"
proof -
  have y: "y = map (\<lambda>r. vadd (map (dot r) (weight l)) (bias l)) x"
    using assms(1) by (auto simp: linear_forward_def split: if_splits)
  have "finite_vec (vadd (map (dot r) (weight l)) (bias l))" if "r \<in> set x" for r
  proof (rule finite_vadd)
    have "finite_vec r" using that assms(3) by (simp add: finite_mat_def list_all_iff)
    then show "finite_vec (map (dot r) (weight l))"
      using assms(2) by (auto simp: finite_linear_def finite_mat_def list_all_iff
          finite_vec_iff[of "map (dot r) (weight l)"] intro!: finite_dot)
    show "finite_vec (bias l)" using assms(2) by (simp add: finite_linear_def)
  qed
  then show ?thesis by (simp add: y finite_mat_def list_all_iff)
qed

lemma finite_map_relu: "finite_mat x \<Longrightarrow> finite_mat (map (map relu) x)"
  by (auto simp: finite_mat_iff finite_relu)

lemma finite_dropout: "finite_mat x \<Longrightarrow> finite_mat (dropout keep x)"
  by (auto simp: finite_mat_iff dropout_def in_set_enumerate_eq intro!: finite_fmul)
     (meson nth_mem)+

lemma finite_sequential_forward:
  assumes "sequential_forward keep s x = Inr y"
    and "finite_linear (layer0 s)" and "finite_linear (layer3 s)" and "finite_linear (layer5 s)"
    and "finite_mat x"
  shows "finite_mat y"
proof -
  from assms(1) obtain h0 h3 where h0: "linear_forward (layer0 s) x = Inr h0"
    and h3: "linear_forward (layer3 s) (dropout keep (map (map relu) h0)) = Inr h3"
    and y: "linear_forward (layer5 s) (map (map relu) h3) = Inr y"
    by (auto simp: sequential_forward_def split: sum.splits)
  have "finite_mat h0" using finite_linear_forward[OF h0 assms(2,5)] .
  then have "finite_mat (dropout keep (map (map relu) h0))"
    by (simp add: finite_dropout finite_map_relu)
  then have "finite_mat h3" using finite_linear_forward[OF h3 assms(3)] by simp
  then have "finite_mat (map (map relu) h3)" by (simp add: finite_map_relu)
  then show ?thesis using finite_linear_forward[OF y assms(4)] by simp
qed

lemma nan_free_iff: "nan_free x = (\<forall>r \<in> set x. \<forall>v \<in> set r. \<not> is_nan v)"
  by (simp add: nan_free_def list_all_iff)

lemma finite_if_neither: "\<not> is_nan v \<Longrightarrow> \<not> is_inf v \<Longrightarrow> is_finite v"
  by (cases v) auto

lemma finite_take_drop:
  "finite_mat y \<Longrightarrow> finite_mat (map (take w) y) \<and> finite_mat (map (drop w) y)"
  by (auto simp: finite_mat_iff dest: in_set_takeD in_set_dropD)

lemma finite_fdiv: "is_finite a \<Longrightarrow> is_finite b \<Longrightarrow> b \<noteq> Fin 0 \<Longrightarrow> is_finite (fdiv a b)"
  by (auto simp: is_finite_iff)

lemma finite_fsub: "is_finite a \<Longrightarrow> is_finite b \<Longrightarrow> is_finite (fsub a b)"
  by (auto simp: is_finite_iff fsub_def)

lemma transform_finite:
  assumes "transform sc x = Inr y" and "finite_vec (scaler_mean sc)"
    and "list_all (\<lambda>s. is_finite s \<and> s \<noteq> Fin 0) (scaler_scale sc)" and "finite_mat x"
  shows "finite_mat y"
proof -
  have y: "y = map (\<lambda>r. map (\<lambda>(v, m, s). fdiv (fsub v m) s)
                     (zip r (zip (scaler_mean sc) (scaler_scale sc)))) x"
    using assms(1) by (auto simp: transform_def split: if_splits)
  have "is_finite (fdiv (fsub v m) s)"
    if "r \<in> set x" "(v, m, s) \<in> set (zip r (zip (scaler_mean sc) (scaler_scale sc)))"
    for r v m s
  proof -
    from that(2) have v: "v \<in> set r" and ms: "(m, s) \<in> set (zip (scaler_mean sc) (scaler_scale sc))"
      by (auto dest: zip_memD)
    from ms have m: "m \<in> set (scaler_mean sc)" and s: "s \<in> set (scaler_scale sc)"
      by (auto dest: zip_memD)
    have "is_finite v" using v that(1) assms(4) by (auto simp: finite_mat_iff)
    moreover have "is_finite m" using m assms(2) by (simp add: finite_vec_iff)
    moreover have "is_finite s \<and> s \<noteq> Fin 0" using s assms(3) by (simp add: list_all_iff)
    ultimately show ?thesis by (simp add: finite_fdiv finite_fsub)
  qed
  then show ?thesis unfolding y finite_mat_iff by auto
qed

lemma get_scaled_finite:
  assumes "get_scaled m s a = Inr (s', a')"
    and "case input_scaler m of None \<Rightarrow> True
         | Some sc \<Rightarrow> finite_vec (scaler_mean sc)
                      \<and> list_all (\<lambda>s. is_finite s \<and> s \<noteq> Fin 0) (scaler_scale sc)"
    and "nan_free s" and "finite_mat a"
  shows "finite_mat s' \<and> finite_mat a'"
proof -
  from assms(1) obtain sa sc y where sa: "np_append s a = Inr sa"
    and sc: "input_scaler m = Some sc" and y: "transform sc sa = Inr y"
    and r: "s' = map (take (width s)) y" "a' = map (drop (width s)) y"
    by (auto simp: get_scaled_def split: sum.splits option.splits)
  from sa have sa_eq: "sa = map2 (@) s a"
    by (auto simp: np_append_def split: if_splits)
  from y have "check_array sa"
    by (auto simp: transform_def split: if_splits)
  then have noinf: "\<forall>r \<in> set sa. \<forall>v \<in> set r. \<not> is_inf v"
    by (simp add: check_array_def list_all_iff)
  have "is_finite v" if "r \<in> set sa" "v \<in> set r" for r v
  proof -
    from that(1) obtain p q where pq: "(p, q) \<in> set (zip s a)" "r = p @ q"
      by (auto simp: sa_eq)
    then have "p \<in> set s" "q \<in> set a" by (auto dest: zip_memD)
    with that(2) pq(2) consider "v \<in> set p" "p \<in> set s" | "v \<in> set q" "q \<in> set a" by auto
    then show ?thesis
    proof cases
      case 1
      then have "\<not> is_nan v" using assms(3) by (auto simp: nan_free_iff)
      moreover have "\<not> is_inf v" using noinf that by blast
      ultimately show ?thesis by (rule finite_if_neither)
    next
      case 2
      then show ?thesis using assms(4) by (auto simp: finite_mat_iff)
    qed
  qed
  then have "finite_mat sa" by (auto simp: finite_mat_iff)
  moreover have "finite_vec (scaler_mean sc)"
      "list_all (\<lambda>s. is_finite s \<and> s \<noteq> Fin 0) (scaler_scale sc)"
    using assms(2) sc by simp_all
  ultimately have "finite_mat y" using transform_finite[OF y] by simp
  then show ?thesis using r finite_take_drop by simp
qed

lemma finite_cat_last: "cat_last a b = Inr c \<Longrightarrow> finite_mat a \<Longrightarrow> finite_mat b \<Longrightarrow> finite_mat c"
  by (auto simp: cat_last_def finite_mat_iff split: if_splits dest!: zip_memD)

lemma forward_finite:
  assumes "forward keep m (T2 s) (T2 a) = Inr out"
    and "finite_linear (layer0 (model m))" and "finite_linear (layer3 (model m))"
    and "finite_linear (layer5 (model m))" and "finite_mat s" and "finite_mat a"
  shows "finite_mat (loc out)"
proof -
  from assms(1) obtain c y where c: "cat_last s a = Inr c"
    and y: "sequential_forward keep (model m) c = Inr y" and o: "loc out = y"
    by (auto simp: forward_def add_last_axis_def loc_def split: sum.splits if_splits)
  have "finite_mat c" using finite_cat_last[OF c assms(5,6)] .
  then show ?thesis using finite_sequential_forward[OF y assms(2,3,4)] o by simp
qed

lemma madd_finite: "madd a b = Inr c \<Longrightarrow> finite_mat a \<Longrightarrow> finite_mat b \<Longrightarrow> finite_mat c"
  by (auto simp: madd_def finite_mat_iff vadd_def split: if_splits dest!: zip_memD
      intro!: finite_fadd)

lemma inverse_transform_finite:
  assumes "inverse_transform sc x = Inr y" and "finite_vec (scaler_mean sc)"
    and "finite_vec (scaler_scale sc)" and "finite_mat x"
  shows "finite_mat y"
proof -
  have y: "y = map (\<lambda>r. map (\<lambda>(v, m, s). fadd (fmul v s) m)
                     (zip r (zip (scaler_mean sc) (scaler_scale sc)))) x"
    using assms(1) by (auto simp: inverse_transform_def split: if_splits)
  have "is_finite (fadd (fmul v s) m)"
    if "r \<in> set x" "(v, m, s) \<in> set (zip r (zip (scaler_mean sc) (scaler_scale sc)))"
    for r v m s
  proof -
    from that(2) have v: "v \<in> set r" and ms: "(m, s) \<in> set (zip (scaler_mean sc) (scaler_scale sc))"
      by (auto dest: zip_memD)
    from ms have m: "m \<in> set (scaler_mean sc)" and s: "s \<in> set (scaler_scale sc)"
      by (auto dest: zip_memD)
    have "is_finite v" using v that(1) assms(4) by (auto simp: finite_mat_iff)
    moreover have "is_finite m" using m assms(2) by (simp add: finite_vec_iff)
    moreover have "is_finite s" using s assms(3) by (simp add: finite_vec_iff)
    ultimately show ?thesis by (simp add: finite_fadd finite_fmul)
  qed
  then show ?thesis unfolding y finite_mat_iff by auto
qed

lemma get_prediction_finite:
  assumes "get_prediction keep ag s a True = Inr p" and "regular_agent ag"
    and "nan_free s" and "finite_mat a"
  shows "finite_mat p"
proof -
  from assms(1) obtain s' a' out nss sc where
    1: "get_scaled (agent_model ag) s a = Inr (s', a')"
    and 2: "forward keep (agent_model ag) (T2 s') (T2 a') = Inr out"
    and 3: "(if agent_delta ag then madd (loc out) s' else Inr (loc out)) = Inr nss"
    and sc: "output_scaler (agent_model ag) = Some sc"
    and 4: "inverse_transform sc nss = Inr p"
    by (auto simp: get_prediction_def split: sum.splits option.splits prod.splits)
  have f: "finite_mat s' \<and> finite_mat a'"
    using get_scaled_finite[OF 1 _ assms(3,4)] assms(2) by (simp add: regular_agent_def)
  have "finite_mat (loc out)"
    using forward_finite[OF 2] assms(2) f by (simp add: regular_agent_def)
  then have "finite_mat nss"
    using 3 f by (auto split: if_splits dest: madd_finite)
  moreover have "finite_vec (scaler_mean sc)" "finite_vec (scaler_scale sc)"
    using assms(2) sc by (simp_all add: regular_agent_def)
  ultimately show ?thesis using inverse_transform_finite[OF 4] by simp
qed

lemma list_all_enumerate:
  "list_all (\<lambda>(j, v). P j v) (enumerate 0 r) = (\<forall>j<length r. P j (r ! j))"
  by (auto simp: list_all_iff in_set_enumerate_eq)

lemma fclamp_clamp_of: "fle lo hi \<Longrightarrow> clamp_of lo hi p (fclamp p lo hi)"
  by (cases p; cases lo; cases hi) (auto simp: clamp_of_def fclamp_def fmax_def fmin_def fle_def)

lemma clamp_of_between:
  "clamp_of lo hi p v \<Longrightarrow> fle lo hi \<Longrightarrow> \<not> is_nan p \<Longrightarrow> fle lo v \<and> fle v hi \<and> \<not> is_nan v"
  by (cases p; cases lo; cases hi) (auto simp: clamp_of_def fle_def split: if_splits)

lemma bwidth3D:
  "bwidth [a, b, c] = Some w \<Longrightarrow> (a = 1 \<or> a = w) \<and> (b = 1 \<or> b = w) \<and> (c = 1 \<or> c = w)"
  by (auto simp: bwidth_def split: if_splits)

lemma entry_nth: "j < length q \<Longrightarrow> entry q j = q ! j"
  by (auto simp: entry_def)

lemma entry_mem: "length q = 1 \<or> length q = w \<Longrightarrow> j < w \<Longrightarrow> entry q j \<in> set q"
  by (auto simp: entry_def)

lemma proper_T2_le:
  assumes "proper_range (T2 [lo, hi])" and "bwidth [n, length lo, length hi] = Some w"
    and "j < w"
  shows "fle (entry lo j) (entry hi j)"
proof -
  from assms(1) have le: "\<And>k. k < max (length lo) (length hi) \<Longrightarrow> fle (entry lo k) (entry hi k)"
    by (simp add: list_all_iff)
  from bwidth3D[OF assms(2)] have w: "length lo = 1 \<or> length lo = w" "length hi = 1 \<or> length hi = w"
    by simp_all
  show ?thesis
  proof (cases "length lo = 1 \<and> length hi = 1")
    case True
    then have "entry lo j = entry lo 0" "entry hi j = entry hi 0" by (simp_all add: entry_def)
    moreover have "fle (entry lo 0) (entry hi 0)" using le[of 0] True by simp
    ultimately show ?thesis by simp
  next
    case False
    with w have "length lo = w \<or> length hi = w" by auto
    with assms(3) have "j < max (length lo) (length hi)" by auto
    then show ?thesis by (rule le)
  qed
qed

lemma proper_rangeD:
  "proper_range sr \<Longrightarrow> (\<exists>lo hi. sr = T1 [lo, hi] \<and> fle lo hi) \<or> (\<exists>lo hi. sr = T2 [lo, hi])"
  by (cases sr rule: proper_range.cases) auto

lemma clamp_range_rows:
  assumes "clamp_range p sr = Inr s" and "proper_range sr"
  shows "list_all2 (\<lambda>q r. \<forall>j<length r. clamp_of (lower sr j) (upper sr j) (entry q j) (r ! j)
                           \<and> fle (lower sr j) (upper sr j) \<and> entry q j \<in> set q) p s"
proof -
  from proper_rangeD[OF assms(2)] show ?thesis
  proof (elim disjE exE conjE)
    fix lo hi assume sr: "sr = T1 [lo, hi]" and le: "fle lo hi"
    then have s: "s = map (map (\<lambda>v. fclamp v lo hi)) p"
      using assms(1) by (simp add: clamp_range_def)
    show ?thesis
      unfolding s sr
      by (simp add: list_all2_map2 entry_nth fclamp_clamp_of[OF le] le list_all2_same)
  next
    fix lo hi assume sr: "sr = T2 [lo, hi]"
    from assms(1) have bw: "\<And>q. q \<in> set p \<Longrightarrow> bwidth [length q, length lo, length hi] \<noteq> None"
      and s: "s = map (\<lambda>r. case bwidth [length r, length lo, length hi] of None \<Rightarrow> []
                   | Some w \<Rightarrow> map (\<lambda>j. fclamp (entry r j) (entry lo j) (entry hi j)) [0..<w]) p"
      by (auto simp: sr clamp_range_def clamp_rows_def list_all_iff split: if_splits)
    have row: "\<forall>j<length (case bwidth [length q, length lo, length hi] of None \<Rightarrow> []
                   | Some w \<Rightarrow> map (\<lambda>j. fclamp (entry q j) (entry lo j) (entry hi j)) [0..<w]).
                 clamp_of (entry lo j) (entry hi j) (entry q j)
                   ((case bwidth [length q, length lo, length hi] of None \<Rightarrow> []
                     | Some w \<Rightarrow> map (\<lambda>j. fclamp (entry q j) (entry lo j) (entry hi j)) [0..<w]) ! j)
                 \<and> fle (entry lo j) (entry hi j) \<and> entry q j \<in> set q"
      if q: "q \<in> set p" for q
    proof -
      from bw[OF q] obtain w where w: "bwidth [length q, length lo, length hi] = Some w" by auto
      have le: "fle (entry lo j) (entry hi j)" if "j < w" for j
        using proper_T2_le[OF _ w that] assms(2) sr by simp
      have mem: "entry q j \<in> set q" if "j < w" for j
        using bwidth3D[OF w] that by (intro entry_mem) auto
      show ?thesis
        by (simp add: w le mem fclamp_clamp_of)
    qed
    show ?thesis
      unfolding s sr using row by (simp add: list_all2_map2 list_all2_same)
  qed
qed

lemma clamp_range_clamped_from:
  assumes "clamp_range p sr = Inr s" and "proper_range sr"
  shows "clamped_from sr p s"
  unfolding clamped_from_def list_all_enumerate
  by (rule list_all2_mono[OF clamp_range_rows[OF assms]]) simp

lemma clamp_range_in_range:
  assumes "clamp_range p sr = Inr s" and "proper_range sr" and "finite_mat p"
  shows "in_range sr s \<and> nan_free s"
proof -
  have "between sr j (r ! j) \<and> \<not> is_nan (r ! j)" if "r \<in> set s" "j < length r" for r j
  proof -
    from that(1) obtain i where i: "i < length s" "r = s ! i"
      by (auto simp: in_set_conv_nth)
    from clamp_range_rows[OF assms(1,2)] have len: "length p = length s"
      and all: "\<And>k. k < length s \<Longrightarrow>
         (\<forall>j<length (s ! k). clamp_of (lower sr j) (upper sr j) (entry (p ! k) j) (s ! k ! j)
                           \<and> fle (lower sr j) (upper sr j) \<and> entry (p ! k) j \<in> set (p ! k))"
      by (simp_all add: list_all2_conv_all_nth)
    define q where "q = p ! i"
    have q: "q \<in> set p" using i(1) len by (simp add: q_def)
    have c: "\<forall>j<length r. clamp_of (lower sr j) (upper sr j) (entry q j) (r ! j)
                           \<and> fle (lower sr j) (upper sr j) \<and> entry q j \<in> set q"
      using all[OF i(1)] i(2) by (simp add: q_def)
    from c that(2) have 1: "clamp_of (lower sr j) (upper sr j) (entry q j) (r ! j)"
      and 2: "fle (lower sr j) (upper sr j)" and 3: "entry q j \<in> set q" by simp_all
    from 3 q assms(3) have "is_finite (entry q j)" by (auto simp: finite_mat_iff)
    then have "\<not> is_nan (entry q j)" by (auto simp: is_finite_iff)
    from clamp_of_between[OF 1 2 this] show ?thesis by (simp add: between_def)
  qed
  note rows = this
  have "in_range sr s"
    unfolding in_range_def list_all_enumerate by (simp add: list_all_iff rows)
  moreover have "\<not> is_nan v" if "r \<in> set s" "v \<in> set r" for r v
  proof -
    from that(2) obtain j where "j < length r" "v = r ! j"
      by (auto simp: in_set_conv_nth)
    with rows[OF that(1)] show ?thesis by simp
  qed
  then have "nan_free s" by (simp add: nan_free_iff)
  ultimately show ?thesis by simp
qed

lemma mpc_loop_steps:
  assumes "mpc_loop E ag sr sw W L goals i acts states = Inr tr" and "proper_range sr"
  shows "\<forall>t<length acts. \<exists>predicted.
           get_prediction (dropout_mask E (i + t)) ag ((states # map fst tr) ! t) (acts ! t) True
             = Inr predicted
           \<and> clamped_from sr predicted (fst (tr ! t))
           \<and> step_losses ag sw W L goals (fst (tr ! t)) = Inr (snd (tr ! t))"
  using assms(1)
proof (induction acts arbitrary: i states tr)
  case Nil
  then show ?case by simp
next
  case (Cons a acts)
  from Cons.prems(1) obtain p s' l tr' where
    p: "get_prediction (dropout_mask E i) ag states a True = Inr p"
    and c: "clamp_range p sr = Inr s'"
    and l: "step_losses ag sw W L goals s' = Inr l"
    and r: "mpc_loop E ag sr sw W L goals (Suc i) acts s' = Inr tr'"
    and tr: "tr = (s', l) # tr'"
    by (auto split: sum.splits)
  have cf: "clamped_from sr p s'" using clamp_range_clamped_from[OF c assms(2)] .
  show ?case
  proof (intro allI impI)
    fix t assume t: "t < length (a # acts)"
    show "\<exists>predicted.
           get_prediction (dropout_mask E (i + t)) ag ((states # map fst tr) ! t) ((a # acts) ! t) True
             = Inr predicted
           \<and> clamped_from sr predicted (fst (tr ! t))
           \<and> step_losses ag sw W L goals (fst (tr ! t)) = Inr (snd (tr ! t))"
    proof (cases t)
      case 0
      then show ?thesis using p cf l tr by simp
    next
      case (Suc k)
      with t have "k < length acts" by simp
      with Cons.IH[OF r] Suc tr show ?thesis by simp
    qed
  qed
qed

lemma mpc_loop_in_range:
  assumes "mpc_loop E ag sr sw W L goals i acts states = Inr tr"
    and "proper_range sr" and "regular_agent ag" and "nan_free states"
    and "list_all finite_mat acts"
  shows "list_all (\<lambda>(s, l). in_range sr s) tr"
  using assms(1,4,5)
proof (induction acts arbitrary: i states tr)
  case Nil
  then show ?case by simp
next
  case (Cons a acts)
  from Cons.prems(1) obtain p s' l tr' where
    p: "get_prediction (dropout_mask E i) ag states a True = Inr p"
    and c: "clamp_range p sr = Inr s'"
    and r: "mpc_loop E ag sr sw W L goals (Suc i) acts s' = Inr tr'"
    and tr: "tr = (s', l) # tr'"
    by (auto split: sum.splits)
  have "finite_mat p"
    using get_prediction_finite[OF p assms(3) Cons.prems(2)] Cons.prems(3) by simp
  then have s': "in_range sr s' \<and> nan_free s'"
    using clamp_range_in_range[OF c assms(2)] by simp
  with Cons.IH[OF r] Cons.prems(3) tr show ?case by simp
qed

lemma finite_sample_actions: "list_all finite_mat (sample_actions E ag ar n_steps n_samples)"
  by (simp add: sample_actions_def list_all_iff finite_mat_iff)

lemma regular_agent_state [simp]: "regular_agent (ag\<lparr>state := s\<rparr>) = regular_agent ag"
  by (simp add: regular_agent_def)

text \<open>
  C8. In a planning call whose bounds have \<open>lo \<le> hi\<close> in every column, the states of
  step \<open>t\<close> are the prediction from the states of step \<open>t - 1\<close> (from the state passed, for
  step 0) and the actions of step \<open>t\<close>, clamped element-wise between the bounds, and the
  costs of the step are those of \<^verbatim>\<open>step_losses\<close> on these clamped states. An entry that
  the prediction leaves NaN stays NaN. When the state passed holds no NaN and the weights
  and the fitted statistics of the agent are finite, the input scales other than zero, the
  states of every step lie within the bounds.
\<close>

theorem mpc_states_within_bounds:
  assumes "mpc_rollout E ag st init goal sr ar n_steps n_samples sw W = Inr tr"
    and "proper_range sr"
  shows "\<exists>L. init_to_goal init goal = Inr L \<and> length tr = n_steps
      \<and> (\<forall>t<n_steps. \<exists>predicted.
            get_prediction (dropout_mask E t) (ag\<lparr>state := Some st\<rparr>)
                ((replicate n_samples st # map fst tr) ! t)
                (sample_actions E ag ar n_steps n_samples ! t) True = Inr predicted
            \<and> clamped_from sr predicted (fst (tr ! t))
            \<and> step_losses (ag\<lparr>state := Some st\<rparr>) sw W L (replicate n_samples goal)
                 (fst (tr ! t)) = Inr (snd (tr ! t)))
      \<and> (list_all (\<lambda>v. \<not> is_nan v) st \<and> regular_agent ag
           \<longrightarrow> list_all (\<lambda>(s, l). in_range sr s) tr)"
proof -
  from assms(1) obtain L where L: "init_to_goal init goal = Inr L"
    and loop: "mpc_loop E (ag\<lparr>state := Some st\<rparr>) sr sw W L (replicate n_samples goal) 0
             (sample_actions E ag ar n_steps n_samples) (replicate n_samples st) = Inr tr"
    by (auto simp: mpc_rollout_def split: sum.splits if_splits)
  have len: "length tr = n_steps"
    using mpc_loop_length[OF loop] by (simp add: sample_actions_length)
  have steps: "\<forall>t<n_steps. \<exists>predicted.
            get_prediction (dropout_mask E t) (ag\<lparr>state := Some st\<rparr>)
                ((replicate n_samples st # map fst tr) ! t)
                (sample_actions E ag ar n_steps n_samples ! t) True = Inr predicted
            \<and> clamped_from sr predicted (fst (tr ! t))
            \<and> step_losses (ag\<lparr>state := Some st\<rparr>) sw W L (replicate n_samples goal)
                 (fst (tr ! t)) = Inr (snd (tr ! t))"
    using mpc_loop_steps[OF loop assms(2)] by (simp add: sample_actions_length)
  have rng: "list_all (\<lambda>(s, l). in_range sr s) tr"
    if "list_all (\<lambda>v. \<not> is_nan v) st \<and> regular_agent ag"
  proof -
    have nf: "nan_free (replicate n_samples st)"
      using that by (auto simp: nan_free_iff list_all_iff)
    from mpc_loop_in_range[OF loop assms(2) _ nf finite_sample_actions] that
    show ?thesis by simp
  qed
  from L len steps rng show ?thesis by blast
qed

lemma prediction1:
  "get_prediction (dropout_mask E1 1) (agent1\<lparr>state := Some [Fin 0, Fin 0]\<rparr>)
       [[Fin 2, Fin 0], [Fin 1, Fin 0]] [[Fin 0], [Fin 5]] True
     = Inr [[Fin 2, Fin 0], [Fin 6, Fin 0]]"
  by (simp add: plan1_defs)

theorem mpc_states_within_bounds_witness:
  "proper_range (T1 [Fin 0, Fin 4]) \<and> list_all (\<lambda>v. \<not> is_nan v) [Fin 0, Fin 0]
   \<and> regular_agent agent1
   \<and> mpc_rollout E1 agent1 [Fin 0, Fin 0] [Fin 0, Fin 0] [Fin 5, Fin 0] (T1 [Fin 0, Fin 4])
        [0, 6] 2 2 False weights0
      = Inr [([[Fin 2, Fin 0], [Fin 1, Fin 0]], [Fin 3, Fin 4]),
               ([[Fin 2, Fin 0], [Fin 4, Fin 0]], [Fin 3, Fin 1])]
   \<and> sample_actions E1 agent1 [0, 6] 2 2 ! 1 = [[Fin 0], [Fin 5]]
   \<and> get_prediction (dropout_mask E1 1) (agent1\<lparr>state := Some [Fin 0, Fin 0]\<rparr>)
        [[Fin 2, Fin 0], [Fin 1, Fin 0]] [[Fin 0], [Fin 5]] True
      = Inr [[Fin 2, Fin 0], [Fin 6, Fin 0]]
   \<and> clamped_from (T1 [Fin 0, Fin 4]) [[Fin 2, Fin 0], [Fin 6, Fin 0]]
        [[Fin 2, Fin 0], [Fin 4, Fin 0]]
   \<and> (\<exists>L. init_to_goal [Fin 0, Fin 0] [Fin 5, Fin 0] = Inr L
        \<and> (\<forall>t<2. \<exists>predicted.
              get_prediction (dropout_mask E1 t) (agent1\<lparr>state := Some [Fin 0, Fin 0]\<rparr>)
                  ((replicate 2 [Fin 0, Fin 0] # map fst
                     [([[Fin 2, Fin 0], [Fin 1, Fin 0]], [Fin 3, Fin 4]),
               ([[Fin 2, Fin 0], [Fin 4, Fin 0]], [Fin 3, Fin 1])]) ! t)
                  (sample_actions E1 agent1 [0, 6] 2 2 ! t) True = Inr predicted
              \<and> clamped_from (T1 [Fin 0, Fin 4]) predicted (fst ([([[Fin 2, Fin 0], [Fin 1, Fin 0]], [Fin 3, Fin 4]),
               ([[Fin 2, Fin 0], [Fin 4, Fin 0]], [Fin 3, Fin 1])] ! t))
              \<and> step_losses (agent1\<lparr>state := Some [Fin 0, Fin 0]\<rparr>) False weights0 L
                   (replicate 2 [Fin 5, Fin 0]) (fst ([([[Fin 2, Fin 0], [Fin 1, Fin 0]], [Fin 3, Fin 4]),
               ([[Fin 2, Fin 0], [Fin 4, Fin 0]], [Fin 3, Fin 1])] ! t))
                 = Inr (snd ([([[Fin 2, Fin 0], [Fin 1, Fin 0]], [Fin 3, Fin 4]),
               ([[Fin 2, Fin 0], [Fin 4, Fin 0]], [Fin 3, Fin 1])] ! t)))
        \<and> list_all (\<lambda>(s, l). in_range (T1 [Fin 0, Fin 4]) s)
            [([[Fin 2, Fin 0], [Fin 1, Fin 0]], [Fin 3, Fin 4]),
               ([[Fin 2, Fin 0], [Fin 4, Fin 0]], [Fin 3, Fin 1])])"
proof -
  have pr: "proper_range (T1 [Fin 0, Fin 4])"
    by (simp add: fle_def)
  have nn: "list_all (\<lambda>v. \<not> is_nan v) [Fin 0, Fin 0]"
    by simp
  have ra: "regular_agent agent1"
    by (simp add: regular_agent_def finite_linear_def finite_mat_def finite_vec_def
        agent1_def agent0_def net1_def net0_def)
  have sa: "sample_actions E1 agent1 [0, 6] 2 2 ! 1 = [[Fin 0], [Fin 5]]"
    by (simp add: sample_actions_def E1_def agent1_def agent0_def eval_nat_numeral)
  have cf: "clamped_from (T1 [Fin 0, Fin 4]) [[Fin 2, Fin 0], [Fin 6, Fin 0]]
        [[Fin 2, Fin 0], [Fin 4, Fin 0]]"
    by (simp add: clamped_from_def clamp_of_def entry_def enumerate_eq_zip eval_nat_numeral)
  define tr where "tr = [([[Fin 2, Fin 0], [Fin 1, Fin 0]], [Fin 3, Fin 4]),
               ([[Fin 2, Fin 0], [Fin 4, Fin 0]], [Fin 3, Fin 1])]"
  have ro: "mpc_rollout E1 agent1 [Fin 0, Fin 0] [Fin 0, Fin 0] [Fin 5, Fin 0]
      (T1 [Fin 0, Fin 4]) [0, 6] 2 2 False weights0 = Inr tr"
    unfolding tr_def by (rule rollout1)
  from mpc_states_within_bounds [OF ro pr] obtain L where
    L: "init_to_goal [Fin 0, Fin 0] [Fin 5, Fin 0] = Inr L"
    and steps: "\<forall>t<2. \<exists>predicted.
              get_prediction (dropout_mask E1 t) (agent1\<lparr>state := Some [Fin 0, Fin 0]\<rparr>)
                  ((replicate 2 [Fin 0, Fin 0] # map fst tr) ! t)
                  (sample_actions E1 agent1 [0, 6] 2 2 ! t) True = Inr predicted
              \<and> clamped_from (T1 [Fin 0, Fin 4]) predicted (fst (tr ! t))
              \<and> step_losses (agent1\<lparr>state := Some [Fin 0, Fin 0]\<rparr>) False weights0 L
                   (replicate 2 [Fin 5, Fin 0]) (fst (tr ! t))
                 = Inr (snd (tr ! t))"
    and imp: "list_all (\<lambda>v. \<not> is_nan v) [Fin 0, Fin 0] \<and> regular_agent agent1
           \<longrightarrow> list_all (\<lambda>(s, l). in_range (T1 [Fin 0, Fin 4]) s) tr"
    by (elim exE conjE) (rule that; assumption)
  have rng: "list_all (\<lambda>(s, l). in_range (T1 [Fin 0, Fin 4]) s) tr"
    using mp[OF imp conjI[OF nn ra]] .
  have "\<exists>L. init_to_goal [Fin 0, Fin 0] [Fin 5, Fin 0] = Inr L
        \<and> (\<forall>t<2. \<exists>predicted.
              get_prediction (dropout_mask E1 t) (agent1\<lparr>state := Some [Fin 0, Fin 0]\<rparr>)
                  ((replicate 2 [Fin 0, Fin 0] # map fst tr) ! t)
                  (sample_actions E1 agent1 [0, 6] 2 2 ! t) True = Inr predicted
              \<and> clamped_from (T1 [Fin 0, Fin 4]) predicted (fst (tr ! t))
              \<and> step_losses (agent1\<lparr>state := Some [Fin 0, Fin 0]\<rparr>) False weights0 L
                   (replicate 2 [Fin 5, Fin 0]) (fst (tr ! t))
                 = Inr (snd (tr ! t)))
        \<and> list_all (\<lambda>(s, l). in_range (T1 [Fin 0, Fin 4]) s) tr"
    by (intro exI[of _ L] conjI L steps rng)
  then have ex: "\<exists>L. init_to_goal [Fin 0, Fin 0] [Fin 5, Fin 0] = Inr L
        \<and> (\<forall>t<2. \<exists>predicted.
              get_prediction (dropout_mask E1 t) (agent1\<lparr>state := Some [Fin 0, Fin 0]\<rparr>)
                  ((replicate 2 [Fin 0, Fin 0] # map fst
                     [([[Fin 2, Fin 0], [Fin 1, Fin 0]], [Fin 3, Fin 4]),
               ([[Fin 2, Fin 0], [Fin 4, Fin 0]], [Fin 3, Fin 1])]) ! t)
                  (sample_actions E1 agent1 [0, 6] 2 2 ! t) True = Inr predicted
              \<and> clamped_from (T1 [Fin 0, Fin 4]) predicted (fst ([([[Fin 2, Fin 0], [Fin 1, Fin 0]], [Fin 3, Fin 4]),
               ([[Fin 2, Fin 0], [Fin 4, Fin 0]], [Fin 3, Fin 1])] ! t))
              \<and> step_losses (agent1\<lparr>state := Some [Fin 0, Fin 0]\<rparr>) False weights0 L
                   (replicate 2 [Fin 5, Fin 0]) (fst ([([[Fin 2, Fin 0], [Fin 1, Fin 0]], [Fin 3, Fin 4]),
               ([[Fin 2, Fin 0], [Fin 4, Fin 0]], [Fin 3, Fin 1])] ! t))
                 = Inr (snd ([([[Fin 2, Fin 0], [Fin 1, Fin 0]], [Fin 3, Fin 4]),
               ([[Fin 2, Fin 0], [Fin 4, Fin 0]], [Fin 3, Fin 1])] ! t)))
        \<and> list_all (\<lambda>(s, l). in_range (T1 [Fin 0, Fin 4]) s)
            [([[Fin 2, Fin 0], [Fin 1, Fin 0]], [Fin 3, Fin 4]),
               ([[Fin 2, Fin 0], [Fin 4, Fin 0]], [Fin 3, Fin 1])]"
    unfolding tr_def .
  show ?thesis
    by (intro conjI pr nn ra rollout1 sa prediction1 cf ex)
qed

text \<open>
  C8 as stated fails: not in every call do the states lie within the bounds. In this call
  the first coordinate of the state is NaN: the bounds have \<open>lo \<le> hi\<close>, and the states
  that the cost is computed from are NaN, which lie within no bounds.
\<close>

theorem mpc_nan_state_counterexample:
  "proper_range (T1 [Fin 0, Fin 10])
   \<and> mpc_rollout E0 agent0 [NaN, Fin 0] [Fin 0, Fin 0] [Fin 3, Fin 4] (T1 [Fin 0, Fin 10])
        [- 1, 1] 1 1 False weights0
      = Inr [([[NaN, NaN]], [NaN])]
   \<and> \<not> in_range (T1 [Fin 0, Fin 10]) [[NaN, NaN]]"
  by (simp add: plan_defs in_range_def between_def fle_def enumerate_eq_zip)

section \<open>The line from init to goal\<close>

text \<open>
  C1 asks for a cost contribution of zero when \<^verbatim>\<open>init\<close> equals \<^verbatim>\<open>goal\<close>. The code has no
  guard: the vector from \<^verbatim>\<open>init\<close> to \<^verbatim>\<open>goal\<close> is zero, \<^verbatim>\<open>optimal_dot\<close> is \<open>0/0\<close>, the
  perpendicular and the heading terms are NaN, and with the default weight 0 they still
  make the cost of every sample NaN.
\<close>

theorem init_equals_goal_nan:
  "init_to_goal [Fin 4, Fin 6] [Fin 4, Fin 6] = Inr line0
   \<and> perp_loss line0 [[Fin 1, Fin 2]] = [NaN]
   \<and> angle_loss line0 [[Fin 3, Fin 4]] = [NaN]
   \<and> mpc_rollout E0 agent0 [Fin 0, Fin 0] [Fin 4, Fin 6] [Fin 4, Fin 6] (T1 [Fin 0, Fin 10])
        [- 1, 1] 1 2 False weights0
      = Inr [([[Fin 1, Fin 2], [Fin 1, Fin 2]], [NaN, NaN])]"
  by (simp add: line0_def plan_defs)

section \<open>The correction step\<close>

text \<open>
  C2 asks that \<^verbatim>\<open>correct\<close> be a no-op on a batch of fewer than ten examples. The code
  selects no example and still calls \<^verbatim>\<open>update\<close>: the step of the optimizer is taken on an
  empty batch, and the loss that comes back is empty, so that its mean, which \<^verbatim>\<open>train\<close>
  records, is NaN.
\<close>

theorem correct_small_batch_updates:
  "correct E t agent0 [[Fin 3, Fin 4], [Fin 5, Fin 6]] [[Fin 1], [Fin 2]]
       [[Fin 3, Fin 4], [Fin 5, Fin 6]] [Fin 8, Fin 32]
     = Inr (agent0\<lparr>agent_model := net0
              \<lparr>model := fst (adam_step E net0 (dropout_mask E t) (normal_noise E t) [] [] []),
               optimizer := snd (adam_step E net0 (dropout_mask E t) (normal_noise E t) [] [] [])\<rparr>\<rparr>,
            [])
   \<and> fmean [] = NaN"
  by (simp add: correct_def topk_def index_rows_def update_def agent0_def
      forward_def add_last_axis_def cat_last_def sequential_forward_def linear_forward_def
      rect_def dropout_def net0_def mse_loss_def same_shape_def reduce_loss_def Let_def
      split_beta fmean_def fsum_def)

text \<open>
  On every batch \<^verbatim>\<open>correct\<close> selects \<open>floor(B/10)\<close> examples, none with a loss below that of
  an example left out, and calls \<^verbatim>\<open>update\<close> once, on them.
\<close>

lemma fless_desc_key: "fless a b \<Longrightarrow> desc_key b < desc_key a"
  by (cases a; cases b) auto

lemma topk_largest:
  assumes "topk loss k = Inr idx"
  shows "length idx = k \<and> distinct idx \<and> (\<forall>i \<in> set idx. i < length loss)
         \<and> (\<forall>i \<in> set idx. \<forall>j<length loss. j \<notin> set idx \<longrightarrow> \<not> fless (loss ! i) (loss ! j))"
proof -
  let ?f = "\<lambda>i. desc_key (loss ! i)"
  let ?xs = "sort_key ?f [0..<length loss]"
  from assms have k: "k \<le> length loss" and idx: "idx = take k ?xs"
    by (auto simp: topk_def split: if_splits)
  have len: "length idx = k" using k idx by simp
  have dist: "distinct idx" using idx by simp
  have rng: "\<forall>i \<in> set idx. i < length loss"
    using idx by (auto dest: in_set_takeD)
  have srt: "sorted (map ?f (take k ?xs @ drop k ?xs))"
    by (simp del: map_append)
  have "\<not> fless (loss ! i) (loss ! j)"
    if i: "i \<in> set idx" and j: "j < length loss" "j \<notin> set idx" for i j
  proof -
    have "j \<in> set ?xs" using j(1) by simp
    then have "j \<in> set (take k ?xs) \<or> j \<in> set (drop k ?xs)"
      by (metis Un_iff append_take_drop_id set_append)
    then have jd: "j \<in> set (drop k ?xs)" using j(2) idx by simp
    have "?f i \<le> ?f j"
      using srt i jd idx unfolding map_append sorted_append by auto
    then show ?thesis using fless_desc_key[of "loss ! i" "loss ! j"] by auto
  qed
  with len dist rng show ?thesis by blast
qed

lemma correct_worst_subset:
  assumes "correct E t ag states actions next_states loss = Inr (ag', l)"
  shows "\<exists>idx m losses. topk loss (length states div 10) = Inr idx
      \<and> length idx = length states div 10
      \<and> update E t (agent_model ag) (map ((!) states) idx) (map ((!) actions) idx)
            (map ((!) next_states) idx) = Inr (m, losses)
      \<and> ag' = ag\<lparr>agent_model := m\<rparr> \<and> l = reduce_loss losses"
proof -
  from assms obtain idx ws wa wn m losses where
    t: "topk loss (length states div 10) = Inr idx"
    and w: "index_rows states idx = Inr ws" "index_rows actions idx = Inr wa"
      "index_rows next_states idx = Inr wn"
    and u: "update E t (agent_model ag) ws wa wn = Inr (m, losses)"
    and r: "ag' = ag\<lparr>agent_model := m\<rparr>" "l = reduce_loss losses"
    by (auto simp: correct_def Let_def split: sum.splits if_splits)
  from w have "ws = map ((!) states) idx" "wa = map ((!) actions) idx"
      "wn = map ((!) next_states) idx"
    by (auto simp: index_rows_def split: if_splits)
  with t u r topk_largest[OF t] show ?thesis by auto
qed

end
